theory Spec2Isabelle
  imports Complex_Main "HOL-Library.Log_Nat" "HOL-Library.Sublist"
begin

section \<open>Loan eligibility service: the orchestration core of \<open>main.go\<close>\<close>

text \<open>
  The development embeds the eligibility service of \<open>main.go\<close> (the variant with the
  retry helpers, \<open>callSalaryAPI\<close>/\<open>callCreditAPI\<close> and the configurable upstream
  locations): the payment function \<open>amortizedMonthlyPayment\<close>, the retry helpers, the two
  upstream calls and \<open>loanHandler\<close>.
\<close>

subsection \<open>Go's \<open>float64\<close>\<close>

text \<open>
  A \<open>float64\<close> is a finite binary64 number, an infinity or a NaN. A finite number is kept as
  the rational it denotes. Every arithmetic operation of Go computes the exact result and
  rounds it to the nearest binary64 number, ties to even (\<open>binary64\<close>), with gradual
  underflow below \<open>2 powi (- 1022)\<close> and overflow to an infinity from \<open>2 powi 1024\<close> on.
  The two zeros of IEEE 754 are identified: they compare equal in Go, and no divisor of the
  program can be a negative zero.
\<close>

datatype float64 = Fin rat | PInf | NInf | NaN

definition ilog2 :: "rat \<Rightarrow> int" where
  \<comment> \<open>\<open>\<lfloor>log\<^sub>2 x\<rfloor>\<close> for a positive rational\<close>
  "ilog2 x = (case quotient_of x of (p, q) \<Rightarrow>
     (let e = bitlen p - bitlen q in if power_int 2 e \<le> x then e else e - 1))"

definition round_even :: "rat \<Rightarrow> int" where
  "round_even y = (let f = \<lfloor>y\<rfloor>; d = y - of_int f in
     if d < 1 / 2 then f else if 1 / 2 < d then f + 1 else if even f then f else f + 1)"

definition ulp :: "rat \<Rightarrow> rat" where
  \<comment> \<open>the spacing of binary64 numbers around \<open>x \<noteq> 0\<close>: 53 significant bits, least exponent \<open>- 1022\<close>\<close>
  "ulp x = power_int 2 (max (ilog2 \<bar>x\<bar>) (- 1022) - 52)"

definition binary64 :: "rat \<Rightarrow> rat" where
  "binary64 x = (if x = 0 then 0 else of_int (round_even (x / ulp x)) * ulp x)"

definition fl :: "rat \<Rightarrow> float64" where
  "fl x = (let y = binary64 x in
     if y = 0 then Fin 0
     else if 1024 \<le> ilog2 \<bar>y\<bar> then (if 0 < y then PInf else NInf)
     else Fin y)"

fun fneg :: "float64 \<Rightarrow> float64" where
  "fneg (Fin x) = Fin (- x)"
| "fneg PInf = NInf"
| "fneg NInf = PInf"
| "fneg NaN = NaN"

fun fadd :: "float64 \<Rightarrow> float64 \<Rightarrow> float64" where
  "fadd (Fin x) (Fin y) = fl (x + y)"
| "fadd NaN _ = NaN"
| "fadd _ NaN = NaN"
| "fadd PInf NInf = NaN"
| "fadd NInf PInf = NaN"
| "fadd PInf _ = PInf"
| "fadd _ PInf = PInf"
| "fadd NInf _ = NInf"
| "fadd _ NInf = NInf"

definition fsub :: "float64 \<Rightarrow> float64 \<Rightarrow> float64" where
  "fsub x y = fadd x (fneg y)"

fun fmul :: "float64 \<Rightarrow> float64 \<Rightarrow> float64" where
  "fmul (Fin x) (Fin y) = fl (x * y)"
| "fmul NaN _ = NaN"
| "fmul _ NaN = NaN"
| "fmul (Fin x) i = (if x = 0 then NaN else if 0 < x then i else fneg i)"
| "fmul i (Fin y) = (if y = 0 then NaN else if 0 < y then i else fneg i)"
| "fmul PInf PInf = PInf"
| "fmul NInf NInf = PInf"
| "fmul PInf NInf = NInf"
| "fmul NInf PInf = NInf"

fun fdiv :: "float64 \<Rightarrow> float64 \<Rightarrow> float64" where
  "fdiv (Fin x) (Fin y) =
     (if y = 0 then (if x = 0 then NaN else if 0 < x then PInf else NInf) else fl (x / y))"
| "fdiv NaN _ = NaN"
| "fdiv _ NaN = NaN"
| "fdiv (Fin x) _ = Fin 0"
| "fdiv i (Fin y) = (if 0 \<le> y then i else fneg i)"
| "fdiv PInf PInf = NaN"
| "fdiv PInf NInf = NaN"
| "fdiv NInf PInf = NaN"
| "fdiv NInf NInf = NaN"

fun flt :: "float64 \<Rightarrow> float64 \<Rightarrow> bool" where
  "flt (Fin x) (Fin y) = (x < y)"
| "flt NaN _ = False"
| "flt _ NaN = False"
| "flt (Fin x) PInf = True"
| "flt NInf (Fin y) = True"
| "flt NInf PInf = True"
| "flt _ NInf = False"
| "flt PInf _ = False"

fun feq :: "float64 \<Rightarrow> float64 \<Rightarrow> bool" where
  "feq NaN _ = False"
| "feq _ NaN = False"
| "feq x y = (x = y)"

definition fle :: "float64 \<Rightarrow> float64 \<Rightarrow> bool" where
  "fle x y = (flt x y \<or> feq x y)"

definition float64_of_int :: "int \<Rightarrow> float64" where
  \<comment> \<open>the conversion \<open>float64(n)\<close>\<close>
  "float64_of_int n = fl (of_int n)"

definition round_away :: "rat \<Rightarrow> int" where
  "round_away x = (if 0 \<le> x then \<lfloor>x + 1 / 2\<rfloor> else - \<lfloor>1 / 2 - x\<rfloor>)"

fun math_Round :: "float64 \<Rightarrow> float64" where
  \<comment> \<open>\<open>math.Round\<close>: the nearest integer, halves away from zero; infinities and NaN unchanged\<close>
  "math_Round (Fin x) = Fin (of_int (round_away x))"
| "math_Round s = s"

subsection \<open>The payment function\<close>

text \<open>
  \<open>math.Pow\<close> belongs to Go's library, not to the repository; the payment function takes it
  as the parameter \<open>pow\<close>.
\<close>

definition amortizedMonthlyPayment ::
  "(float64 \<Rightarrow> float64 \<Rightarrow> float64) \<Rightarrow> float64 \<Rightarrow> int \<Rightarrow> float64 \<Rightarrow> float64" where
  "amortizedMonthlyPayment pow loanAmount termMonths annualInterestPercent =
     (if termMonths \<le> 0 \<or> fle loanAmount (Fin 0) then Fin 0
      else
        let monthlyRate = fdiv (fdiv annualInterestPercent (Fin 100)) (Fin 12) in
        if feq monthlyRate (Fin 0)
        then fdiv (math_Round (fmul (fdiv loanAmount (float64_of_int termMonths)) (Fin 100))) (Fin 100)
        else
          let r = monthlyRate;
              n = float64_of_int termMonths;
              p = loanAmount;
              power = pow (fadd (Fin 1) r) n;
              payment = fdiv (fmul p (fmul r power)) (fsub power (Fin 1))
          in fdiv (math_Round (fmul payment (Fin 100))) (Fin 100))"

subsection \<open>Data types\<close>

record LoanRequest =
  NationalID :: string
  LoanAmount :: float64
  TermMonths :: int

record SalaryResponse =
  sr_NationalID :: string
  MonthlySalary :: float64

record CreditResponse =
  cr_NationalID :: string
  CreditScore :: int
  ActiveDefaults :: int
  ActiveLoans :: int

text \<open>A nil pointer (\<open>SalaryEcho\<close>, \<open>CreditEcho\<close>) is \<open>None\<close>; a nil slice is the empty list.\<close>

record LoanResponse =
  Status :: string
  Reason :: string
  Reasons :: "string list"
  MonthlyPayment :: float64
  AnnualInterest :: float64
  SalaryEcho :: "SalaryResponse option"
  CreditEcho :: "CreditResponse option"
  ApplicationEcho :: "LoanRequest option"

definition zeroSalaryResponse :: SalaryResponse where
  "zeroSalaryResponse = \<lparr>sr_NationalID = [], MonthlySalary = Fin 0\<rparr>"

definition zeroCreditResponse :: CreditResponse where
  "zeroCreditResponse =
     \<lparr>cr_NationalID = [], CreditScore = 0, ActiveDefaults = 0, ActiveLoans = 0\<rparr>"

subsection \<open>Errors\<close>

text \<open>
  An error value is either the repository's \<open>*httpError\<close> (status code and body) or any other
  error (a transport failure of the client, a body that does not decode), of which only the
  text of \<open>Error()\<close> is observed.
\<close>

datatype go_error = HttpError int string | OtherError string

function FormatNat :: "nat \<Rightarrow> nat \<Rightarrow> string" where
  "FormatNat base n =
     (if base < 2 \<or> n < base then [''0123456789abcdefghijklmnopqrstuvwxyz'' ! n]
      else FormatNat base (n div base) @ [''0123456789abcdefghijklmnopqrstuvwxyz'' ! (n mod base)])"
  by pat_completeness auto
termination
  by (relation "measure snd") auto

definition FormatInt :: "int \<Rightarrow> nat \<Rightarrow> string" where
  \<comment> \<open>\<open>strconv.FormatInt\<close>, for a base from 2 to 36\<close>
  "FormatInt i base = (if i < 0 then CHR ''-'' # FormatNat base (nat (- i)) else FormatNat base (nat i))"

definition Itoa :: "int \<Rightarrow> string" where
  "Itoa i = FormatInt i 10"

fun Error :: "go_error \<Rightarrow> string" where
  "Error (HttpError StatusCode Body) = ''http error: '' @ Itoa StatusCode @ '' - '' @ Body"
| "Error (OtherError msg) = msg"

text \<open>
  What a call yields: a value with a nil error, an error, or a run-time panic (which ends the
  handler; the server drops the connection without a response).
\<close>

datatype 'a call = Ok 'a | Failed go_error | Panicked

subsection \<open>The world outside the handler\<close>

text \<open>
  The library and the environment are parameters: \<open>math.Pow\<close>, \<open>strconv.ParseFloat\<close>
  (\<open>None\<close> when it returns an error), the JSON decoders of the three bodies, \<open>os.Getenv\<close>
  (the empty string for an unset variable), the clock read for a fresh request id, whether
  \<open>http.NewRequest\<close> accepts a URL, and the upstream services. \<open>clientDo k req\<close> is what
  \<open>httpClient.Do\<close> returns for \<open>req\<close> when \<open>k\<close> requests have been sent before it: the
  text of a transport error, or the status code and body of a response.
\<close>

record outbound =
  ob_url :: string
  ob_request_id :: string
  ob_national_id :: string

record runtime =
  math_Pow :: "float64 \<Rightarrow> float64 \<Rightarrow> float64"
  ParseFloat :: "string \<Rightarrow> float64 option"
  decodeLoanRequest :: "string \<Rightarrow> LoanRequest option"
  decodeSalaryResponse :: "string \<Rightarrow> string + SalaryResponse"
  decodeCreditResponse :: "string \<Rightarrow> string + CreditResponse"
  Getenv :: "string \<Rightarrow> string"
  UnixNano :: int
  NewRequest_ok :: "string \<Rightarrow> bool"
  clientDo :: "nat \<Rightarrow> outbound \<Rightarrow> string + int \<times> string"

datatype log_line =
    LogCallingSalary string string string
  | LogCallingCredit string string string
  | LogDeclined string string "string list" float64
  | LogApproved string string float64

text \<open>
  The effects of a request: the outbound requests in the order sent, the durations slept
  (nanoseconds) and the lines logged.
\<close>

record world =
  sent :: "outbound list"
  slept :: "int list"
  logged :: "log_line list"

definition Sleep :: "int \<Rightarrow> world \<Rightarrow> world" where
  "Sleep d w = w\<lparr>slept := slept w @ [d]\<rparr>"

definition Printf :: "log_line \<Rightarrow> world \<Rightarrow> world" where
  "Printf l w = w\<lparr>logged := logged w @ [l]\<rparr>"

definition Millisecond :: int where
  "Millisecond = 1000000"

subsection \<open>Retry helpers\<close>

text \<open>
  The loop \<open>for i := 0; i < attempts; i++\<close> runs \<open>attempts - i\<close> more times; \<open>err\<close> is the
  error of the last failed attempt (\<open>None\<close> for nil).
\<close>

fun retrySalary ::
  "nat \<Rightarrow> int \<Rightarrow> (world \<Rightarrow> SalaryResponse call \<times> world) \<Rightarrow> go_error option \<Rightarrow> world
   \<Rightarrow> SalaryResponse call \<times> world" where
  "retrySalary 0 sleep fn err w =
     (case err of None \<Rightarrow> (Ok zeroSalaryResponse, w) | Some e \<Rightarrow> (Failed e, w))"
| "retrySalary (Suc k) sleep fn err w =
     (case fn w of
        (Ok v, w') \<Rightarrow> (Ok v, w')
      | (Failed e, w') \<Rightarrow> retrySalary k sleep fn (Some e) (Sleep sleep w')
      | (Panicked, w') \<Rightarrow> (Panicked, w'))"

definition withRetrySalary ::
  "int \<Rightarrow> int \<Rightarrow> (world \<Rightarrow> SalaryResponse call \<times> world) \<Rightarrow> world
   \<Rightarrow> SalaryResponse call \<times> world" where
  "withRetrySalary attempts sleep fn w = retrySalary (nat attempts) sleep fn None w"

fun retryCredit ::
  "nat \<Rightarrow> int \<Rightarrow> (world \<Rightarrow> CreditResponse call \<times> world) \<Rightarrow> go_error option \<Rightarrow> world
   \<Rightarrow> CreditResponse call \<times> world" where
  "retryCredit 0 sleep fn err w =
     (case err of None \<Rightarrow> (Ok zeroCreditResponse, w) | Some e \<Rightarrow> (Failed e, w))"
| "retryCredit (Suc k) sleep fn err w =
     (case fn w of
        (Ok v, w') \<Rightarrow> (Ok v, w')
      | (Failed e, w') \<Rightarrow> retryCredit k sleep fn (Some e) (Sleep sleep w')
      | (Panicked, w') \<Rightarrow> (Panicked, w'))"

definition withRetryCredit ::
  "int \<Rightarrow> int \<Rightarrow> (world \<Rightarrow> CreditResponse call \<times> world) \<Rightarrow> world
   \<Rightarrow> CreditResponse call \<times> world" where
  "withRetryCredit attempts sleep fn w = retryCredit (nat attempts) sleep fn None w"

subsection \<open>External calls\<close>

text \<open>
  \<open>http.NewRequest\<close>'s error is dropped by the source; on a URL it rejects the request is
  nil and \<open>req.Header.Set\<close> panics.
\<close>

definition callSalaryAPI ::
  "runtime \<Rightarrow> string \<Rightarrow> string \<Rightarrow> string \<Rightarrow> world \<Rightarrow> SalaryResponse call \<times> world" where
  "callSalaryAPI rt baseURL nationalID reqID w =
     (let req = \<lparr>ob_url = baseURL @ ''/verify-salary'', ob_request_id = reqID,
                 ob_national_id = nationalID\<rparr>
      in if \<not> NewRequest_ok rt (ob_url req) then (Panicked, w)
         else
           let res = clientDo rt (length (sent w)) req; w' = w\<lparr>sent := sent w @ [req]\<rparr>
           in case res of
                Inl err \<Rightarrow> (Failed (OtherError err), w')
              | Inr (StatusCode, b) \<Rightarrow>
                  if StatusCode \<noteq> 200 then (Failed (HttpError StatusCode b), w')
                  else (case decodeSalaryResponse rt b of
                          Inl err \<Rightarrow> (Failed (OtherError err), w')
                        | Inr sr \<Rightarrow> (Ok sr, w')))"

definition callCreditAPI ::
  "runtime \<Rightarrow> string \<Rightarrow> string \<Rightarrow> string \<Rightarrow> world \<Rightarrow> CreditResponse call \<times> world" where
  "callCreditAPI rt baseURL nationalID reqID w =
     (let req = \<lparr>ob_url = baseURL @ ''/check-credit'', ob_request_id = reqID,
                 ob_national_id = nationalID\<rparr>
      in if \<not> NewRequest_ok rt (ob_url req) then (Panicked, w)
         else
           let res = clientDo rt (length (sent w)) req; w' = w\<lparr>sent := sent w @ [req]\<rparr>
           in case res of
                Inl err \<Rightarrow> (Failed (OtherError err), w')
              | Inr (StatusCode, b) \<Rightarrow>
                  if StatusCode \<noteq> 200 then (Failed (HttpError StatusCode b), w')
                  else (case decodeCreditResponse rt b of
                          Inl err \<Rightarrow> (Failed (OtherError err), w')
                        | Inr cr \<Rightarrow> (Ok cr, w')))"

subsection \<open>Requests and responses\<close>

text \<open>
  An inbound request: its method, \<open>r.Header.Get\<close> (the empty string for a missing header)
  and its body. A response: the status code, the headers set and what was written as the
  body: a line of text (\<open>http.Error\<close>), a JSON object of strings (\<open>map[string]string\<close>),
  an encoded \<open>LoanResponse\<close>, or nothing.
\<close>

record request =
  Method :: string
  HeaderGet :: "string \<Rightarrow> string"
  Body :: string

datatype body =
  Text string | JSONMap "string \<rightharpoonup> string" | JSONLoan LoanResponse | NoBody

record response =
  code :: int
  header :: "string \<rightharpoonup> string"
  payload :: body

definition http_Error :: "(string \<rightharpoonup> string) \<Rightarrow> string \<Rightarrow> int \<Rightarrow> response" where
  \<comment> \<open>\<open>http.Error\<close>: a plain-text line with the given status code\<close>
  "http_Error h msg c =
     \<lparr>code = c,
      header = h(''Content-Type'' \<mapsto> ''text/plain; charset=utf-8'',
                 ''X-Content-Type-Options'' \<mapsto> ''nosniff''),
      payload = Text (msg @ [CHR 0x0A])\<rparr>"

text \<open>
  \<open>json.NewEncoder(w).Encode\<close> of a \<open>LoanResponse\<close>: the encoder refuses an infinity and
  a NaN (``unsupported value'') in any number of the value, and then writes nothing. The handler
  drops the encoder's error (\<open>_ = ...\<close>), so that the response then goes out with its status
  and headers and an empty body.
\<close>

definition isFinite :: "float64 \<Rightarrow> bool" where
  "isFinite x = (case x of Fin y \<Rightarrow> True | _ \<Rightarrow> False)"

definition encodable :: "LoanResponse \<Rightarrow> bool" where
  "encodable l =
     (isFinite (MonthlyPayment l) \<and> isFinite (AnnualInterest l)
      \<and> (case SalaryEcho l of None \<Rightarrow> True | Some s \<Rightarrow> isFinite (MonthlySalary s))
      \<and> (case ApplicationEcho l of None \<Rightarrow> True | Some a \<Rightarrow> isFinite (LoanAmount a)))"

definition Encode :: "LoanResponse \<Rightarrow> body" where
  "Encode l = (if encodable l then JSONLoan l else NoBody)"

definition getOrCreateReqID :: "runtime \<Rightarrow> request \<Rightarrow> string" where
  "getOrCreateReqID rt r =
     (let id = HeaderGet r ''X-Request-ID''
      in if id = [] then FormatInt (UnixNano rt) 36 else id)"

subsection \<open>The handler\<close>

text \<open>The annual rate: the default, replaced when the variable is set and parses.\<close>

definition annualRate :: "runtime \<Rightarrow> float64" where
  "annualRate rt =
     (let v = Getenv rt ''ANNUAL_INTEREST_PERCENT''
      in if v \<noteq> [] then (case ParseFloat rt v of Some f \<Rightarrow> f | None \<Rightarrow> Fin 20) else Fin 20)"

text \<open>The four rule checks of the decision block, each appending to \<open>reasons\<close>.\<close>

definition decisionReasons :: "SalaryResponse \<Rightarrow> CreditResponse \<Rightarrow> float64 \<Rightarrow> string list" where
  "decisionReasons salary credit monthly =
     (let reasons = [];
          reasons = (if flt (MonthlySalary salary) (fmul (Fin 3) monthly)
                     then reasons @ [''Monthly salary is less than 3x the amortized monthly repayment'']
                     else reasons);
          reasons = (if CreditScore credit < 600
                     then reasons @ [''Credit score below 600''] else reasons);
          reasons = (if ActiveDefaults credit > 0
                     then reasons @ [''Active defaults present''] else reasons);
          reasons = (if ActiveLoans credit > 3
                     then reasons @ [''More than 3 active loans''] else reasons)
      in reasons)"

text \<open>
  The end of the handler, from the decision rules on: the rule checks, the log line and the
  response given to the encoder.
\<close>

definition decide ::
  "string \<Rightarrow> LoanRequest \<Rightarrow> float64 \<Rightarrow> SalaryResponse \<Rightarrow> CreditResponse \<Rightarrow> float64
   \<Rightarrow> (string \<rightharpoonup> string) \<Rightarrow> world \<Rightarrow> response \<times> world" where
  "decide reqID req rate salary credit monthly h w =
     (let reasons = decisionReasons salary credit monthly;
          h = h(''Content-Type'' \<mapsto> ''application/json'')
      in if length reasons > 0
         then (\<lparr>code = 200, header = h,
                payload = Encode \<lparr>Status = ''DECLINED'', Reason = reasons ! 0, Reasons = reasons,
                  MonthlyPayment = monthly, AnnualInterest = rate, SalaryEcho = Some salary,
                  CreditEcho = Some credit, ApplicationEcho = Some req\<rparr>\<rparr>,
               Printf (LogDeclined reqID (NationalID req) reasons monthly) w)
         else (\<lparr>code = 200, header = h,
                payload = Encode \<lparr>Status = ''APPROVED'', Reason = [], Reasons = [],
                  MonthlyPayment = monthly, AnnualInterest = rate, SalaryEcho = Some salary,
                  CreditEcho = Some credit, ApplicationEcho = Some req\<rparr>\<rparr>,
               Printf (LogApproved reqID (NationalID req) monthly) w))"

definition isNotFound :: "go_error \<Rightarrow> bool" where
  \<comment> \<open>\<open>httpErr, ok := err.(*httpError); ok && httpErr.StatusCode == http.StatusNotFound\<close>\<close>
  "isNotFound err = (case err of HttpError StatusCode b \<Rightarrow> StatusCode = 404 | OtherError m \<Rightarrow> False)"

definition loanHandler :: "runtime \<Rightarrow> request \<Rightarrow> world \<Rightarrow> response option \<times> world" where
  "loanHandler rt r w =
     (if Method r \<noteq> ''POST''
      then (Some (http_Error Map.empty ''Only POST requests allowed'' 405), w)
      else
        let reqID = getOrCreateReqID rt r;
            h = [''X-Request-ID'' \<mapsto> reqID]
        in case decodeLoanRequest rt (Body r) of
             None \<Rightarrow> (Some (http_Error h ''Invalid request body'' 400), w)
           | Some req \<Rightarrow>
             if NationalID req = [] \<or> fle (LoanAmount req) (Fin 0) \<or> TermMonths req \<le> 0
             then (Some (http_Error h ''Missing or invalid fields'' 400), w)
             else
               let salaryURL = Getenv rt ''SALARY_API_URL'';
                   creditURL = Getenv rt ''CREDIT_API_URL'';
                   rate = annualRate rt
               in if salaryURL = [] \<or> creditURL = []
                  then (Some \<lparr>code = 500, header = h(''Content-Type'' \<mapsto> ''application/json''),
                          payload = JSONMap [''error'' \<mapsto> ''config_error'',
                            ''message'' \<mapsto> ''Service URLs not configured'',
                            ''request_id'' \<mapsto> reqID]\<rparr>, w)
                  else
                   (case withRetrySalary 3 (250 * Millisecond)
                           (callSalaryAPI rt salaryURL (NationalID req) reqID)
                           (Printf (LogCallingSalary reqID salaryURL (NationalID req)) w) of
                      (Panicked, w) \<Rightarrow> (None, w)
                    | (Failed err, w) \<Rightarrow>
                        if isNotFound err
                        then
                          let monthly = amortizedMonthlyPayment (math_Pow rt) (LoanAmount req)
                                          (TermMonths req) rate;
                              reasons = [''Salary record not found'']
                          in (Some \<lparr>code = 200,
                                header = h(''Content-Type'' \<mapsto> ''application/json''),
                                payload = Encode \<lparr>Status = ''DECLINED'', Reason = reasons ! 0,
                                  Reasons = reasons, MonthlyPayment = monthly,
                                  AnnualInterest = rate, SalaryEcho = None, CreditEcho = None,
                                  ApplicationEcho = Some req\<rparr>\<rparr>, w)
                        else (Some \<lparr>code = 502,
                                header = h(''Content-Type'' \<mapsto> ''application/json''),
                                payload = JSONMap [''error'' \<mapsto> ''salary_service_unavailable'',
                                  ''message'' \<mapsto> ''Failed to verify salary'',
                                  ''detail'' \<mapsto> Error err,
                                  ''request_id'' \<mapsto> reqID]\<rparr>, w)
                    | (Ok salary, w) \<Rightarrow>
                       (case withRetryCredit 3 (250 * Millisecond)
                               (callCreditAPI rt creditURL (NationalID req) reqID)
                               (Printf (LogCallingCredit reqID creditURL (NationalID req)) w) of
                          (Panicked, w) \<Rightarrow> (None, w)
                        | (Failed err, w) \<Rightarrow>
                            if isNotFound err
                            then
                              let monthly = amortizedMonthlyPayment (math_Pow rt) (LoanAmount req)
                                              (TermMonths req) rate;
                                  reasons = [''Credit record not found'']
                              in (Some \<lparr>code = 200,
                                    header = h(''Content-Type'' \<mapsto> ''application/json''),
                                    payload = Encode \<lparr>Status = ''DECLINED'',
                                      Reason = reasons ! 0, Reasons = reasons,
                                      MonthlyPayment = monthly, AnnualInterest = rate,
                                      SalaryEcho = Some salary, CreditEcho = None,
                                      ApplicationEcho = Some req\<rparr>\<rparr>, w)
                            else (Some \<lparr>code = 502,
                                    header = h(''Content-Type'' \<mapsto> ''application/json''),
                                    payload = JSONMap [''error'' \<mapsto> ''credit_service_unavailable'',
                                      ''message'' \<mapsto> ''Failed to verify credit'',
                                      ''detail'' \<mapsto> Error err,
                                      ''request_id'' \<mapsto> reqID]\<rparr>, w)
                        | (Ok credit, w) \<Rightarrow>
                            let monthly = amortizedMonthlyPayment (math_Pow rt) (LoanAmount req)
                                            (TermMonths req) rate;
                                (resp, w) = decide reqID req rate salary credit monthly h w
                            in (Some resp, w))))"

subsection \<open>Notions used to state the properties\<close>



text \<open>Rounding to two decimal places, halves away from zero, as the payment function does it.\<close>

definition round2 :: "float64 \<Rightarrow> float64" where
  "round2 x = fdiv (math_Round (fmul x (Fin 100))) (Fin 100)"

text \<open>
  A value of \<open>float64\<close> approximates a rational when it is finite and within the given
  distance of it.
\<close>

definition approximates :: "float64 \<Rightarrow> rat \<Rightarrow> rat \<Rightarrow> bool" where
  "approximates v x eps = (case v of Fin y \<Rightarrow> \<bar>y - x\<bar> \<le> eps | _ \<Rightarrow> False)"

text \<open>
  The request an upstream call sends, the outcome it makes of a reply, and the outcome of
  the attempt made when \<open>k\<close> requests have been sent before.
\<close>

definition salaryRequest :: "string \<Rightarrow> string \<Rightarrow> string \<Rightarrow> outbound" where
  "salaryRequest baseURL nationalID reqID =
     \<lparr>ob_url = baseURL @ ''/verify-salary'', ob_request_id = reqID, ob_national_id = nationalID\<rparr>"

definition creditRequest :: "string \<Rightarrow> string \<Rightarrow> string \<Rightarrow> outbound" where
  "creditRequest baseURL nationalID reqID =
     \<lparr>ob_url = baseURL @ ''/check-credit'', ob_request_id = reqID, ob_national_id = nationalID\<rparr>"

definition salaryResult :: "runtime \<Rightarrow> string + int \<times> string \<Rightarrow> SalaryResponse call" where
  "salaryResult rt reply =
     (case reply of
        Inl err \<Rightarrow> Failed (OtherError err)
      | Inr (c, b) \<Rightarrow>
          if c \<noteq> 200 then Failed (HttpError c b)
          else (case decodeSalaryResponse rt b of
                  Inl err \<Rightarrow> Failed (OtherError err) | Inr sr \<Rightarrow> Ok sr))"

definition creditResult :: "runtime \<Rightarrow> string + int \<times> string \<Rightarrow> CreditResponse call" where
  "creditResult rt reply =
     (case reply of
        Inl err \<Rightarrow> Failed (OtherError err)
      | Inr (c, b) \<Rightarrow>
          if c \<noteq> 200 then Failed (HttpError c b)
          else (case decodeCreditResponse rt b of
                  Inl err \<Rightarrow> Failed (OtherError err) | Inr cr \<Rightarrow> Ok cr))"

definition salaryAttempt :: "runtime \<Rightarrow> string \<Rightarrow> string \<Rightarrow> string \<Rightarrow> nat \<Rightarrow> SalaryResponse call" where
  "salaryAttempt rt baseURL nationalID reqID k =
     salaryResult rt (clientDo rt k (salaryRequest baseURL nationalID reqID))"

definition creditAttempt :: "runtime \<Rightarrow> string \<Rightarrow> string \<Rightarrow> string \<Rightarrow> nat \<Rightarrow> CreditResponse call" where
  "creditAttempt rt baseURL nationalID reqID k =
     creditResult rt (clientDo rt k (creditRequest baseURL nationalID reqID))"

text \<open>
  The classification of an outcome: an attempt failed, it failed with the upstream's
  ``no record'' answer (a 404), or it failed otherwise (the upstream is unavailable).
\<close>

definition failed :: "'a call \<Rightarrow> bool" where
  "failed c = (case c of Failed e \<Rightarrow> True | _ \<Rightarrow> False)"

definition notFound :: "'a call \<Rightarrow> bool" where
  "notFound c = (case c of Failed e \<Rightarrow> isNotFound e | _ \<Rightarrow> False)"

definition unavailable :: "'a call \<Rightarrow> bool" where
  "unavailable c = (case c of Failed e \<Rightarrow> \<not> isNotFound e | _ \<Rightarrow> False)"

text \<open>The world after more requests were sent and more pauses slept.\<close>

definition after :: "world \<Rightarrow> outbound list \<Rightarrow> int list \<Rightarrow> world" where
  "after w reqs sleeps = w\<lparr>sent := sent w @ reqs, slept := slept w @ sleeps\<rparr>"

text \<open>
  A request passes validation: it is a POST, its body decodes to \<open>req\<close> and the fields of
  \<open>req\<close> are present and positive. The service is configured when both locations are set.
\<close>

definition validated :: "runtime \<Rightarrow> request \<Rightarrow> LoanRequest \<Rightarrow> bool" where
  "validated rt r req =
     (Method r = ''POST'' \<and> decodeLoanRequest rt (Body r) = Some req \<and> NationalID req \<noteq> []
      \<and> \<not> fle (LoanAmount req) (Fin 0) \<and> 0 < TermMonths req)"

definition configured :: "runtime \<Rightarrow> bool" where
  "configured rt = (Getenv rt ''SALARY_API_URL'' \<noteq> [] \<and> Getenv rt ''CREDIT_API_URL'' \<noteq> [])"

subsection \<open>A concrete runtime for examples\<close>

text \<open>
  The upstream answers from a script: the \<open>k\<close>-th request gets the \<open>k\<close>-th status and body,
  and the connection is refused once the script is over. The decoders know the bodies below.
\<close>

definition scripted :: "(int \<times> string) list \<Rightarrow> nat \<Rightarrow> outbound \<Rightarrow> string + int \<times> string" where
  "scripted replies k req =
     (if k < length replies then Inr (replies ! k) else Inl ''connection refused'')"

definition exampleEnv :: "string \<Rightarrow> string" where
  "exampleEnv name =
     (if name = ''SALARY_API_URL'' then ''http://salary:8081''
      else if name = ''CREDIT_API_URL'' then ''http://credit:8082''
      else [])"

definition nanRateEnv :: "string \<Rightarrow> string" where
  \<comment> \<open>the example environment with the annual rate set to the text NaN, which parses\<close>
  "nanRateEnv = exampleEnv(''ANNUAL_INTEREST_PERCENT'' := ''NaN'')"

definition noEnv :: "string \<Rightarrow> string" where
  \<comment> \<open>an environment with no variable set\<close>
  "noEnv name = []"

definition exampleApplication :: LoanRequest where
  "exampleApplication = \<lparr>NationalID = ''12345678'', LoanAmount = Fin 50000, TermMonths = 12\<rparr>"

definition exampleSalary :: SalaryResponse where
  "exampleSalary = \<lparr>sr_NationalID = ''12345678'', MonthlySalary = Fin 350000\<rparr>"

definition exampleCredit :: CreditResponse where
  "exampleCredit =
     \<lparr>cr_NationalID = ''12345678'', CreditScore = 650, ActiveDefaults = 0, ActiveLoans = 2\<rparr>"

definition powNearest :: "float64 \<Rightarrow> float64 \<Rightarrow> float64" where
  \<comment> \<open>the power rounded once, for a finite base and a natural exponent\<close>
  "powNearest x y =
     (case (x, y) of
        (Fin a, Fin b) \<Rightarrow> if 0 \<le> b \<and> of_int \<lfloor>b\<rfloor> = b then fl (a ^ nat \<lfloor>b\<rfloor>) else NaN
      | _ \<Rightarrow> NaN)"

definition exampleRuntime ::
  "(string \<Rightarrow> string) \<Rightarrow> (nat \<Rightarrow> outbound \<Rightarrow> string + int \<times> string) \<Rightarrow> runtime" where
  "exampleRuntime env upstream =
     \<lparr>math_Pow = powNearest,
      ParseFloat = (\<lambda>s. if s = ''18'' then Some (Fin 18)
         else if s = ''NaN'' then Some NaN else None),
      decodeLoanRequest = (\<lambda>b. if b = ''{application 12345678}'' then Some exampleApplication
         else if b = ''{application without id}'' then Some (exampleApplication\<lparr>NationalID := []\<rparr>)
         else None),
      decodeSalaryResponse = (\<lambda>b. if b = ''{salary 12345678}'' then Inr exampleSalary
         else Inl ''unexpected end of JSON input''),
      decodeCreditResponse = (\<lambda>b. if b = ''{credit 12345678}'' then Inr exampleCredit
         else Inl ''unexpected end of JSON input''),
      Getenv = env,
      UnixNano = 1700000000000000000,
      NewRequest_ok = (\<lambda>url. True),
      clientDo = upstream\<rparr>"

definition exampleRequest :: "string \<Rightarrow> request" where
  "exampleRequest b =
     \<lparr>Method = ''POST'', HeaderGet = (\<lambda>name. if name = ''X-Request-ID'' then ''r1'' else []),
      Body = b\<rparr>"

definition world0 :: world where
  "world0 = \<lparr>sent = [], slept = [], logged = []\<rparr>"

section \<open>Properties\<close>

subsection \<open>The decision rules\<close>


lemma example_rule_1: "fl 3000 = Fin 3000"
  by code_simp


lemma example_finite [simp]: "isFinite (Fin x)"
  by (simp add: isFinite_def)


text \<open>
  C9. With no active default on record, recording one changes the reasons only by adding
  ``Active defaults present'': the reasons before are kept, in their order, and the new
  reason stands between the reasons that precede it in rule order and those that follow.
\<close>

theorem defaults_monotone:
  assumes "ActiveDefaults credit = 0"
  shows "\<exists>pre post.
           decisionReasons salary credit monthly = pre @ post
         \<and> decisionReasons salary (credit\<lparr>ActiveDefaults := 1\<rparr>) monthly
             = pre @ [''Active defaults present''] @ post
         \<and> ''Active defaults present'' \<notin> set (pre @ post)
         \<and> subseq (decisionReasons salary credit monthly)
              (decisionReasons salary (credit\<lparr>ActiveDefaults := 1\<rparr>) monthly)"
proof -
  let ?pre = "(if flt (MonthlySalary salary) (fmul (Fin 3) monthly)
                then [''Monthly salary is less than 3x the amortized monthly repayment''] else [])
              @ (if CreditScore credit < 600 then [''Credit score below 600''] else [])"
  let ?post = "if ActiveLoans credit > 3 then [''More than 3 active loans''] else []"
  have a: "decisionReasons salary credit monthly = ?pre @ ?post"
    using assms by (simp add: decisionReasons_def Let_def)
  have b: "decisionReasons salary (credit\<lparr>ActiveDefaults := 1\<rparr>) monthly
             = ?pre @ [''Active defaults present''] @ ?post"
    by (simp add: decisionReasons_def Let_def)
  have c: "''Active defaults present'' \<notin> set (?pre @ ?post)"
    by simp
  have d: "subseq (?pre @ ?post) (?pre @ [''Active defaults present''] @ ?post)"
    by (intro list_emb_append_mono) (simp_all add: subseq_Cons')
  show ?thesis
    using a b c d by metis
qed

theorem defaults_monotone_witness:
  "ActiveDefaults (exampleCredit\<lparr>CreditScore := 540, ActiveLoans := 4\<rparr>) = 0
   \<and> decisionReasons exampleSalary (exampleCredit\<lparr>CreditScore := 540, ActiveLoans := 4\<rparr>) (Fin 1000)
       = [''Credit score below 600'', ''More than 3 active loans'']
   \<and> decisionReasons exampleSalary
         (exampleCredit\<lparr>CreditScore := 540, ActiveLoans := 4, ActiveDefaults := 1\<rparr>) (Fin 1000)
       = [''Credit score below 600'', ''Active defaults present'', ''More than 3 active loans'']
   \<and> subseq
        (decisionReasons exampleSalary (exampleCredit\<lparr>CreditScore := 540, ActiveLoans := 4\<rparr>) (Fin 1000))
        (decisionReasons exampleSalary
           (exampleCredit\<lparr>CreditScore := 540, ActiveLoans := 4, ActiveDefaults := 1\<rparr>) (Fin 1000))"
proof -
  have z: "ActiveDefaults (exampleCredit\<lparr>CreditScore := 540, ActiveLoans := 4\<rparr>) = 0"
    by (simp add: exampleCredit_def)
  show ?thesis
    using defaults_monotone [OF z, of exampleSalary "Fin 1000"]
    by (simp add: decisionReasons_def exampleSalary_def exampleCredit_def example_rule_1)
qed

subsection \<open>The payment function\<close>




subsection \<open>Rounding to binary64\<close>

text \<open>
  The rounded value of a rational in the normal range differs from it by at most half a unit
  in the last place, that is by at most the fraction \<open>1 / 2 ^ 53\<close> of it.
\<close>

lemma ilog2_le:
  assumes "0 < x"
  shows "power_int 2 (ilog2 x) \<le> x"
proof -
  obtain p q where pq: "quotient_of x = (p, q)"
    by (cases "quotient_of x") auto
  then have q: "0 < q" and x: "x = of_int p / of_int q"
    by (auto simp: quotient_of_denom_pos quotient_of_div)
  with assms have p: "0 < p"
    by (simp add: zero_less_divide_iff)
  define e where "e = bitlen p - bitlen q"
  show ?thesis
  proof (cases "power_int 2 e \<le> x")
    case True
    then show ?thesis
      by (simp add: ilog2_def pq e_def Let_def)
  next
    case False
    then have il: "ilog2 x = e - 1"
      by (simp add: ilog2_def pq e_def Let_def)
    have bp: "(2::int) ^ nat (bitlen p - 1) \<le> p" and bq: "q < 2 ^ nat (bitlen q)"
      using bitlen_bounds [OF p] bitlen_bounds [OF q] by auto
    have bp1: "1 \<le> bitlen p" and bq1: "0 \<le> bitlen q"
      using p bitlen_nonneg [of q] by (auto simp: bitlen_alt_def)
    have "(2::rat) ^ nat (bitlen p - 1) \<le> of_int p"
      using bp by (metis of_int_le_iff of_int_numeral of_int_power)
    moreover have "(of_int q :: rat) \<le> 2 ^ nat (bitlen q)"
      using bq by (metis less_imp_le of_int_le_iff of_int_numeral of_int_power)
    ultimately have "(2::rat) ^ nat (bitlen p - 1) / 2 ^ nat (bitlen q) \<le> of_int p / of_int q"
      using q p by (intro frac_le) auto
    moreover have "power_int (2::rat) (e - 1) = 2 ^ nat (bitlen p - 1) / 2 ^ nat (bitlen q)"
    proof -
      have "e - 1 = int (nat (bitlen p - 1)) - int (nat (bitlen q))"
        using bp1 bq1 by (simp add: e_def)
      then have "power_int (2::rat) (e - 1) =
          power_int 2 (int (nat (bitlen p - 1)) - int (nat (bitlen q)))"
        by (simp only:)
      also have "\<dots> = power_int 2 (int (nat (bitlen p - 1))) / power_int 2 (int (nat (bitlen q)))"
        by (rule power_int_diff) simp
      finally show ?thesis
        by (simp only: power_int_of_nat)
    qed
    ultimately show ?thesis
      unfolding il by (simp add: x)
  qed
qed


lemma round_even_error: "\<bar>of_int (round_even y) - y\<bar> \<le> 1 / 2"
proof -
  have "of_int \<lfloor>y\<rfloor> \<le> y" "y < of_int \<lfloor>y\<rfloor> + 1"
    by linarith+
  then show ?thesis
    by (auto simp: round_even_def Let_def abs_le_iff)
qed

lemma ulp_le:
  assumes "power_int 2 (- 1022) \<le> \<bar>x\<bar>"
  shows "ulp x \<le> \<bar>x\<bar> / 2 ^ 52"
proof -
  have "0 < power_int (2::rat) (- 1022)"
    by (rule zero_less_power_int) simp
  with assms have pos: "0 < \<bar>x\<bar>"
    by linarith
  have a: "power_int 2 (ilog2 \<bar>x\<bar> - 52) \<le> \<bar>x\<bar> / 2 ^ 52"
    using ilog2_le [OF pos] by (simp add: power_int_diff divide_right_mono)
  have b: "power_int 2 (- 1022 - 52) \<le> \<bar>x\<bar> / 2 ^ 52"
    using assms by (simp add: power_int_diff divide_right_mono)
  show ?thesis
    using a b by (simp add: ulp_def max_def)
qed

lemma ulp_pos: "0 < ulp x"
  by (simp add: ulp_def)

lemma binary64_error:
  assumes "power_int 2 (- 1022) \<le> \<bar>x\<bar>"
  shows "\<bar>binary64 x - x\<bar> \<le> \<bar>x\<bar> / 2 ^ 53"
proof -
  have "0 < power_int (2::rat) (- 1022)"
    by (rule zero_less_power_int) simp
  with assms have nz: "x \<noteq> 0"
    by auto
  have "binary64 x - x = (of_int (round_even (x / ulp x)) - x / ulp x) * ulp x"
    using ulp_pos [of x] by (simp add: binary64_def nz left_diff_distrib)
  then have "\<bar>binary64 x - x\<bar> = \<bar>of_int (round_even (x / ulp x)) - x / ulp x\<bar> * ulp x"
    using ulp_pos [of x] by (simp add: abs_mult)
  also have "\<dots> \<le> 1 / 2 * ulp x"
    using round_even_error [of "x / ulp x"] ulp_pos [of x] by (intro mult_right_mono) simp_all
  also have "\<dots> \<le> 1 / 2 * (\<bar>x\<bar> / 2 ^ 52)"
    using ulp_le [OF assms] by simp
  finally show ?thesis
    by simp
qed

lemma fl_near:
  assumes "1 / 2 ^ 20 \<le> x" and "x \<le> 2 ^ 20"
  obtains y where "fl x = Fin y" and "x - x / 2 ^ 53 \<le> y" and "y \<le> x + x / 2 ^ 53"
proof -
  have "(0::rat) < 1 / 2 ^ 20"
    by simp
  with assms(1) have x: "0 < x"
    by linarith
  have "power_int (2::rat) (- 1022) \<le> power_int 2 (- 20)"
    by (rule power_int_increasing) simp_all
  also have "\<dots> = 1 / 2 ^ 20"
    by (simp add: power_int_minus field_simps)
  finally have "power_int 2 (- 1022) \<le> \<bar>x\<bar>"
    using assms(1) x by simp
  from binary64_error [OF this] x have "\<bar>binary64 x - x\<bar> \<le> x / 2 ^ 53"
    by simp
  then have lo: "x - x / 2 ^ 53 \<le> binary64 x" and hi: "binary64 x \<le> x + x / 2 ^ 53"
    by linarith+
  have "0 < x - x / 2 ^ 53"
    using x by (simp add: field_simps)
  with lo have y: "0 < binary64 x"
    by linarith
  have "\<not> 1024 \<le> ilog2 \<bar>binary64 x\<bar>"
  proof
    assume "1024 \<le> ilog2 \<bar>binary64 x\<bar>"
    then have "power_int (2::rat) 1024 \<le> power_int 2 (ilog2 \<bar>binary64 x\<bar>)"
      by (intro power_int_increasing) simp_all
    also have "\<dots> \<le> \<bar>binary64 x\<bar>"
      using y by (intro ilog2_le) simp
    also have "\<dots> \<le> x + x / 2 ^ 53"
      using hi y by simp
    also have "\<dots> \<le> 2 * x"
      using x by (simp add: field_simps)
    also have "\<dots> \<le> power_int 2 21"
      using assms(2) by simp
    finally have "power_int (2::rat) 1024 \<le> power_int 2 21" .
    moreover have "power_int (2::rat) 21 < power_int 2 1024"
      by (rule power_int_strict_increasing) simp_all
    ultimately show False
      by simp
  qed
  with y have "fl x = Fin (binary64 x)"
    by (simp add: fl_def Let_def)
  with lo hi that show thesis
    by blast
qed

lemma fl_between:
  assumes "lo \<le> x" and "x \<le> hi" and "1 / 2 ^ 20 \<le> lo" and "hi \<le> 2 ^ 20"
  shows "\<exists>y. fl x = Fin y \<and> lo * (1 - 1 / 2 ^ 53) \<le> y \<and> y \<le> hi * (1 + 1 / 2 ^ 53)"
proof -
  have "1 / 2 ^ 20 \<le> x" "x \<le> 2 ^ 20"
    using assms by linarith+
  from fl_near [OF this] obtain y where y: "fl x = Fin y"
    and "x - x / 2 ^ 53 \<le> y" "y \<le> x + x / 2 ^ 53"
    by blast
  then have "x * (1 - 1 / 2 ^ 53) \<le> y" "y \<le> x * (1 + 1 / 2 ^ 53)"
    by (simp_all add: algebra_simps)
  moreover have "lo * (1 - 1 / 2 ^ 53) \<le> x * (1 - 1 / 2 ^ 53)"
    using assms(1) by (intro mult_right_mono) simp_all
  moreover have "x * (1 + 1 / 2 ^ 53) \<le> hi * (1 + 1 / 2 ^ 53)"
    using assms(2) by (intro mult_right_mono) simp_all
  ultimately show ?thesis
    using y by (intro exI [of _ y]) linarith
qed

subsection \<open>The payment of the example application\<close>

text \<open>
  The payment for 50000 over 12 months at 20 percent, followed through the roundings of the
  function: whatever \<open>math.Pow\<close> returns within \<open>1 / 10 ^ 9\<close> of the exact power
  \<open>(61 / 60) ^ 12\<close>, a hundred times the payment lies strictly between 463172.5 and 463173.5,
  so that the rounded payment is the binary64 number nearest to 4631.73.
\<close>

lemma example_rate:
  "fdiv (fdiv (Fin 20) (Fin 100)) (Fin 12) = Fin (4803839602528529 / 288230376151711744)"
  by code_simp

lemma example_base:
  "fadd (Fin 1) (Fin (4803839602528529 / 288230376151711744)) = Fin (1144664905290001 / 1125899906842624)"
  by code_simp

lemma example_term: "float64_of_int 12 = Fin 12"
  by code_simp

lemma payment_example:
  assumes "approximates
      (pow (fadd (Fin 1) (fdiv (fdiv (Fin 20) (Fin 100)) (Fin 12))) (float64_of_int 12))
      ((61 / 60) ^ 12) (1 / 10 ^ 9)"
  shows "amortizedMonthlyPayment pow (Fin 50000) 12 (Fin 20) = fl (463173 / 100)"
proof -
  let ?r = "4803839602528529 / 288230376151711744 :: rat"
  have arg: "fadd (Fin 1) (fdiv (fdiv (Fin 20) (Fin 100)) (Fin 12)) = Fin (1144664905290001 / 1125899906842624)"
    by (simp only: example_rate example_base)
  obtain P where P: "pow (Fin (1144664905290001 / 1125899906842624)) (Fin 12) = Fin P"
    and "\<bar>P - (61 / 60) ^ 12\<bar> \<le> 1 / 10 ^ 9"
    using assms unfolding arg example_term approximates_def
    by (cases "pow (Fin (1144664905290001 / 1125899906842624)) (Fin 12)") simp_all
  then have "P - (61 / 60) ^ 12 \<le> 1 / 10 ^ 9" "(61 / 60) ^ 12 - P \<le> 1 / 10 ^ 9"
    by linarith+
  then have P0: "1219391083905 / 1000000000000 \<le> P" "P \<le> 1219391085906 / 1000000000000"
    by (simp_all add: power_divide)
  \<comment> \<open>\<open>r * power\<close>\<close>
  have "20323184731749 / 1000000000000000 \<le> ?r * P" "?r * P \<le> 20323184765100 / 1000000000000000"
    using P0 by simp_all
  from fl_between [OF this] obtain y1 where y1: "fl (?r * P) = Fin y1"
    and "20323184731749 / 1000000000000000 * (1 - 1 / 2 ^ 53) \<le> y1" "y1 \<le> 20323184765100 / 1000000000000000 * (1 + 1 / 2 ^ 53)"
    by auto
  then have B1: "20323184731748 / 1000000000000000 \<le> y1" "y1 \<le> 20323184765101 / 1000000000000000"
    by simp_all
  \<comment> \<open>\<open>p * (r * power)\<close>\<close>
  have "101615923658740 / 100000000000 \<le> 50000 * y1" "50000 * y1 \<le> 101615923825505 / 100000000000"
    using B1 by simp_all
  from fl_between [OF this] obtain y2 where y2: "fl (50000 * y1) = Fin y2"
    and "101615923658740 / 100000000000 * (1 - 1 / 2 ^ 53) \<le> y2" "y2 \<le> 101615923825505 / 100000000000 * (1 + 1 / 2 ^ 53)"
    by auto
  then have B2: "10161592365873 / 10000000000 \<le> y2" "y2 \<le> 10161592382551 / 10000000000"
    by simp_all
  \<comment> \<open>\<open>power - 1\<close>\<close>
  have "219391083905 / 1000000000000 \<le> P + - 1" "P + - 1 \<le> 219391085906 / 1000000000000"
    using P0 by simp_all
  from fl_between [OF this] obtain y3 where y3: "fl (P + - 1) = Fin y3"
    and "219391083905 / 1000000000000 * (1 - 1 / 2 ^ 53) \<le> y3" "y3 \<le> 219391085906 / 1000000000000 * (1 + 1 / 2 ^ 53)"
    by auto
  then have B3: "2193910839049 / 10000000000000 \<le> y3" "y3 \<le> 2193910859061 / 10000000000000"
    by simp_all
  then have y3_pos: "0 < y3" and y3_nz: "y3 \<noteq> 0"
    by simp_all
  \<comment> \<open>the quotient\<close>
  have "(10161592365873 / 10000000000) / (2193910859061 / 10000000000000) \<le> y2 / y3"
    using B2 B3 y3_pos by (intro frac_le) simp_all
  then have Q1: "4631725269923 / 1000000000 \<le> y2 / y3"
    by simp
  have "y2 / y3 \<le> (10161592382551 / 10000000000) / (2193910839049 / 10000000000000)"
    using B2 B3 y3_pos by (intro frac_le) simp_all
  then have Q2: "y2 / y3 \<le> 4631725319775 / 1000000000"
    by simp
  from fl_between [OF Q1 Q2] obtain y4 where y4: "fl (y2 / y3) = Fin y4"
    and "4631725269923 / 1000000000 * (1 - 1 / 2 ^ 53) \<le> y4" "y4 \<le> 4631725319775 / 1000000000 * (1 + 1 / 2 ^ 53)"
    by auto
  then have B4: "4631725269922 / 1000000000 \<le> y4" "y4 \<le> 4631725319776 / 1000000000"
    by simp_all
  \<comment> \<open>\<open>payment * 100\<close>\<close>
  have "4631725269922 / 10000000 \<le> y4 * 100" "y4 * 100 \<le> 4631725319776 / 10000000"
    using B4 by simp_all
  from fl_between [OF this] obtain y5 where y5: "fl (y4 * 100) = Fin y5"
    and "4631725269922 / 10000000 * (1 - 1 / 2 ^ 53) \<le> y5" "y5 \<le> 4631725319776 / 10000000 * (1 + 1 / 2 ^ 53)"
    by auto
  then have B5: "4631725269921 / 10000000 \<le> y5" "y5 \<le> 4631725319777 / 10000000"
    by simp_all
  then have "\<lfloor>y5 + 1 / 2\<rfloor> = 463173" and "0 \<le> y5"
    by (simp_all add: floor_eq_iff)
  then have rnd: "round_away y5 = 463173"
    by (simp add: round_away_def)
  \<comment> \<open>the run of the function\<close>
  have guard: "((12::int) \<le> 0 \<or> fle (Fin 50000) (Fin 0)) = False"
    by (simp add: fle_def)
  have rate: "feq (Fin ?r) (Fin 0) = False"
    by simp
  have s3: "fsub (Fin P) (Fin 1) = Fin y3"
    by (simp only: fsub_def fneg.simps fadd.simps y3)
  have s4: "fdiv (Fin y2) (Fin y3) = Fin y4"
    by (simp only: fdiv.simps y3_nz if_False y4)
  have s6: "math_Round (Fin y5) = Fin 463173"
    by (simp only: math_Round.simps rnd) simp
  have s7: "fdiv (Fin 463173) (Fin 100) = fl (463173 / 100)"
    by simp
  show ?thesis
    by (simp only: amortizedMonthlyPayment_def Let_def guard if_False example_rate rate
        example_base example_term P fmul.simps y1 y2 s3 s4 y5 s6 s7)
qed

lemma powNearest_example:
  "approximates
     (powNearest (fadd (Fin 1) (fdiv (fdiv (Fin 20) (Fin 100)) (Fin 12))) (float64_of_int 12))
     ((61 / 60) ^ 12) (1 / 10 ^ 9)"
proof -
  let ?a = "1144664905290001 / 1125899906842624 :: rat"
  have pw: "powNearest (Fin ?a) (Fin 12) = fl (?a ^ 12)"
    by (simp add: powNearest_def)
  have "1219391084905 / 1000000000000 \<le> ?a ^ 12" "?a ^ 12 \<le> 1219391084906 / 1000000000000"
    by (simp_all add: power_divide)
  from fl_between [OF this] obtain y where y: "fl (?a ^ 12) = Fin y"
    and "1219391084905 / 1000000000000 * (1 - 1 / 2 ^ 53) \<le> y"
      "y \<le> 1219391084906 / 1000000000000 * (1 + 1 / 2 ^ 53)"
    by auto
  then have "y - (61 / 60) ^ 12 \<le> 1 / 10 ^ 9" "(61 / 60) ^ 12 - y \<le> 1 / 10 ^ 9"
    by (simp_all add: power_divide)
  then have "\<bar>y - (61 / 60) ^ 12\<bar> \<le> 1 / 10 ^ 9"
    by linarith
  then show ?thesis
    by (simp only: example_rate example_base example_term pw y approximates_def float64.case)
qed






subsection \<open>The retry helpers and the upstream calls\<close>

lemma after_after [simp]: "after (after w a b) c d = after w (a @ c) (b @ d)"
  by (simp add: after_def)

lemma Sleep_after [simp]: "Sleep d (after w a b) = after w a (b @ [d])"
  by (simp add: after_def Sleep_def)

lemma sent_after [simp]: "sent (after w a b) = sent w @ a"
  by (simp add: after_def)

lemma slept_after [simp]: "slept (after w a b) = slept w @ b"
  by (simp add: after_def)

lemma logged_after [simp]: "logged (after w a b) = logged w"
  by (simp add: after_def)

lemma after_Nil [simp]: "after w [] [] = w"
  by (simp add: after_def)

lemma callSalaryAPI_attempt:
  "NewRequest_ok rt (baseURL @ ''/verify-salary'') \<Longrightarrow>
   callSalaryAPI rt baseURL nationalID reqID w =
     (salaryAttempt rt baseURL nationalID reqID (length (sent w)),
      after w [salaryRequest baseURL nationalID reqID] [])"
  by (simp add: callSalaryAPI_def salaryAttempt_def salaryResult_def salaryRequest_def after_def
      Let_def split: sum.splits prod.splits)

lemma retrySalary_all_failed:
  assumes ok: "NewRequest_ok rt (baseURL @ ''/verify-salary'')"
  shows "(\<forall>k<n. failed (salaryAttempt rt baseURL nationalID reqID (length (sent w) + k))) \<Longrightarrow>
    retrySalary n d (callSalaryAPI rt baseURL nationalID reqID) err w =
      ((if n = 0 then (case err of None \<Rightarrow> Ok zeroSalaryResponse | Some e \<Rightarrow> Failed e)
        else salaryAttempt rt baseURL nationalID reqID (length (sent w) + n - 1)),
       after w (replicate n (salaryRequest baseURL nationalID reqID)) (replicate n d))"
proof (induction n arbitrary: err w)
  case 0
  then show ?case by (simp split: option.splits)
next
  case (Suc n)
  from Suc.prems have f0: "failed (salaryAttempt rt baseURL nationalID reqID (length (sent w)))"
    by (metis add.right_neutral zero_less_Suc)
  then obtain e where e: "salaryAttempt rt baseURL nationalID reqID (length (sent w)) = Failed e"
    by (auto simp: failed_def split: call.splits)
  let ?w = "after w [salaryRequest baseURL nationalID reqID] [d]"
  have rest: "\<forall>k<n. failed (salaryAttempt rt baseURL nationalID reqID (length (sent ?w) + k))"
    using Suc.prems by (auto simp: less_Suc_eq_0_disj)
  have step: "retrySalary (Suc n) d (callSalaryAPI rt baseURL nationalID reqID) err w =
      retrySalary n d (callSalaryAPI rt baseURL nationalID reqID) (Some e) ?w"
    by (simp add: callSalaryAPI_attempt [OF ok] e)
  have "retrySalary n d (callSalaryAPI rt baseURL nationalID reqID) (Some e) ?w =
      ((if n = 0 then Failed e
        else salaryAttempt rt baseURL nationalID reqID (length (sent ?w) + n - 1)),
       after ?w (replicate n (salaryRequest baseURL nationalID reqID)) (replicate n d))"
    using Suc.IH [OF rest, of "Some e"] by simp
  then show ?case
    unfolding step by (cases n) (simp_all add: e)
qed

lemma retrySalary_first_ok:
  assumes ok: "NewRequest_ok rt (baseURL @ ''/verify-salary'')"
  shows "j < n \<Longrightarrow>
    (\<forall>k<j. failed (salaryAttempt rt baseURL nationalID reqID (length (sent w) + k))) \<Longrightarrow>
    salaryAttempt rt baseURL nationalID reqID (length (sent w) + j) = Ok v \<Longrightarrow>
    retrySalary n d (callSalaryAPI rt baseURL nationalID reqID) err w =
      (Ok v, after w (replicate (Suc j) (salaryRequest baseURL nationalID reqID)) (replicate j d))"
proof (induction j arbitrary: n err w)
  case 0
  then obtain m where "n = Suc m" by (cases n) auto
  with 0 show ?case
    by (simp add: callSalaryAPI_attempt [OF ok])
next
  case (Suc j)
  then obtain m where n: "n = Suc m" and jm: "j < m" by (cases n) auto
  from Suc.prems(2) have f0: "failed (salaryAttempt rt baseURL nationalID reqID (length (sent w)))"
    by (metis add.right_neutral zero_less_Suc)
  then obtain e where e: "salaryAttempt rt baseURL nationalID reqID (length (sent w)) = Failed e"
    by (auto simp: failed_def split: call.splits)
  let ?w = "after w [salaryRequest baseURL nationalID reqID] [d]"
  have rest: "\<forall>k<j. failed (salaryAttempt rt baseURL nationalID reqID (length (sent ?w) + k))"
    using Suc.prems(2) by (auto simp: less_Suc_eq_0_disj)
  have okj: "salaryAttempt rt baseURL nationalID reqID (length (sent ?w) + j) = Ok v"
    using Suc.prems(3) by simp
  have step: "retrySalary n d (callSalaryAPI rt baseURL nationalID reqID) err w =
      retrySalary m d (callSalaryAPI rt baseURL nationalID reqID) (Some e) ?w"
    by (simp add: n callSalaryAPI_attempt [OF ok] e)
  show ?case
    unfolding step Suc.IH [OF jm rest okj] by simp
qed

lemma callCreditAPI_attempt:
  "NewRequest_ok rt (baseURL @ ''/check-credit'') \<Longrightarrow>
   callCreditAPI rt baseURL nationalID reqID w =
     (creditAttempt rt baseURL nationalID reqID (length (sent w)),
      after w [creditRequest baseURL nationalID reqID] [])"
  by (simp add: callCreditAPI_def creditAttempt_def creditResult_def creditRequest_def after_def
      Let_def split: sum.splits prod.splits)

lemma retryCredit_all_failed:
  assumes ok: "NewRequest_ok rt (baseURL @ ''/check-credit'')"
  shows "(\<forall>k<n. failed (creditAttempt rt baseURL nationalID reqID (length (sent w) + k))) \<Longrightarrow>
    retryCredit n d (callCreditAPI rt baseURL nationalID reqID) err w =
      ((if n = 0 then (case err of None \<Rightarrow> Ok zeroCreditResponse | Some e \<Rightarrow> Failed e)
        else creditAttempt rt baseURL nationalID reqID (length (sent w) + n - 1)),
       after w (replicate n (creditRequest baseURL nationalID reqID)) (replicate n d))"
proof (induction n arbitrary: err w)
  case 0
  then show ?case by (simp split: option.splits)
next
  case (Suc n)
  from Suc.prems have f0: "failed (creditAttempt rt baseURL nationalID reqID (length (sent w)))"
    by (metis add.right_neutral zero_less_Suc)
  then obtain e where e: "creditAttempt rt baseURL nationalID reqID (length (sent w)) = Failed e"
    by (auto simp: failed_def split: call.splits)
  let ?w = "after w [creditRequest baseURL nationalID reqID] [d]"
  have rest: "\<forall>k<n. failed (creditAttempt rt baseURL nationalID reqID (length (sent ?w) + k))"
    using Suc.prems by (auto simp: less_Suc_eq_0_disj)
  have step: "retryCredit (Suc n) d (callCreditAPI rt baseURL nationalID reqID) err w =
      retryCredit n d (callCreditAPI rt baseURL nationalID reqID) (Some e) ?w"
    by (simp add: callCreditAPI_attempt [OF ok] e)
  have "retryCredit n d (callCreditAPI rt baseURL nationalID reqID) (Some e) ?w =
      ((if n = 0 then Failed e
        else creditAttempt rt baseURL nationalID reqID (length (sent ?w) + n - 1)),
       after ?w (replicate n (creditRequest baseURL nationalID reqID)) (replicate n d))"
    using Suc.IH [OF rest, of "Some e"] by simp
  then show ?case
    unfolding step by (cases n) (simp_all add: e)
qed

lemma retryCredit_first_ok:
  assumes ok: "NewRequest_ok rt (baseURL @ ''/check-credit'')"
  shows "j < n \<Longrightarrow>
    (\<forall>k<j. failed (creditAttempt rt baseURL nationalID reqID (length (sent w) + k))) \<Longrightarrow>
    creditAttempt rt baseURL nationalID reqID (length (sent w) + j) = Ok v \<Longrightarrow>
    retryCredit n d (callCreditAPI rt baseURL nationalID reqID) err w =
      (Ok v, after w (replicate (Suc j) (creditRequest baseURL nationalID reqID)) (replicate j d))"
proof (induction j arbitrary: n err w)
  case 0
  then obtain m where "n = Suc m" by (cases n) auto
  with 0 show ?case
    by (simp add: callCreditAPI_attempt [OF ok])
next
  case (Suc j)
  then obtain m where n: "n = Suc m" and jm: "j < m" by (cases n) auto
  from Suc.prems(2) have f0: "failed (creditAttempt rt baseURL nationalID reqID (length (sent w)))"
    by (metis add.right_neutral zero_less_Suc)
  then obtain e where e: "creditAttempt rt baseURL nationalID reqID (length (sent w)) = Failed e"
    by (auto simp: failed_def split: call.splits)
  let ?w = "after w [creditRequest baseURL nationalID reqID] [d]"
  have rest: "\<forall>k<j. failed (creditAttempt rt baseURL nationalID reqID (length (sent ?w) + k))"
    using Suc.prems(2) by (auto simp: less_Suc_eq_0_disj)
  have okj: "creditAttempt rt baseURL nationalID reqID (length (sent ?w) + j) = Ok v"
    using Suc.prems(3) by simp
  have step: "retryCredit n d (callCreditAPI rt baseURL nationalID reqID) err w =
      retryCredit m d (callCreditAPI rt baseURL nationalID reqID) (Some e) ?w"
    by (simp add: n callCreditAPI_attempt [OF ok] e)
  show ?case
    unfolding step Suc.IH [OF jm rest okj] by simp
qed


lemma withRetrySalary_3:
  "withRetrySalary 3 d fn w = retrySalary (Suc (Suc (Suc 0))) d fn None w"
  by (simp add: withRetrySalary_def eval_nat_numeral)

lemma withRetryCredit_3:
  "withRetryCredit 3 d fn w = retryCredit (Suc (Suc (Suc 0))) d fn None w"
  by (simp add: withRetryCredit_def eval_nat_numeral)

subsection \<open>Facts about the example runtime\<close>

lemma example_validated:
  "validated (exampleRuntime env up) (exampleRequest ''{application 12345678}'') exampleApplication"
  by (simp add: validated_def exampleRuntime_def exampleRequest_def exampleApplication_def fle_def)

lemma example_configured: "configured (exampleRuntime exampleEnv up)"
  by (simp add: configured_def exampleRuntime_def exampleEnv_def)

lemma example_reqID [simp]: "getOrCreateReqID (exampleRuntime env up) (exampleRequest b) = ''r1''"
  by (simp add: getOrCreateReqID_def exampleRequest_def)

lemma example_ok [simp]: "NewRequest_ok (exampleRuntime env up) url"
  by (simp add: exampleRuntime_def)

lemma example_urls [simp]:
  "Getenv (exampleRuntime exampleEnv up) ''SALARY_API_URL'' = ''http://salary:8081''"
  "Getenv (exampleRuntime exampleEnv up) ''CREDIT_API_URL'' = ''http://credit:8082''"
  by (simp_all add: exampleRuntime_def exampleEnv_def)

lemma example_salaryAttempt:
  "salaryAttempt (exampleRuntime env (scripted rs)) url nid rid k =
     (if k < length rs
      then (if fst (rs ! k) \<noteq> 200 then Failed (HttpError (fst (rs ! k)) (snd (rs ! k)))
            else if snd (rs ! k) = ''{salary 12345678}'' then Ok exampleSalary
            else Failed (OtherError ''unexpected end of JSON input''))
      else Failed (OtherError ''connection refused''))"
  by (simp add: salaryAttempt_def salaryResult_def scripted_def exampleRuntime_def
      split: prod.splits)

lemma example_creditAttempt:
  "creditAttempt (exampleRuntime env (scripted rs)) url nid rid k =
     (if k < length rs
      then (if fst (rs ! k) \<noteq> 200 then Failed (HttpError (fst (rs ! k)) (snd (rs ! k)))
            else if snd (rs ! k) = ''{credit 12345678}'' then Ok exampleCredit
            else Failed (OtherError ''unexpected end of JSON input''))
      else Failed (OtherError ''connection refused''))"
  by (simp add: creditAttempt_def creditResult_def scripted_def exampleRuntime_def
      split: prod.splits)

lemma sent_Printf [simp]: "sent (Printf l w) = sent w"
  by (simp add: Printf_def)

lemma sent_world0 [simp]: "sent world0 = []"
  by (simp add: world0_def)

lemma less_3_cases: "(\<forall>k<3. P (k::nat)) \<longleftrightarrow> P 0 \<and> P 1 \<and> P 2"
  by (simp add: numeral_3_eq_3 numeral_2_eq_2 All_less_Suc) blast

lemma example_id [simp]: "NationalID exampleApplication = ''12345678''"
  by (simp add: exampleApplication_def)

lemma example_retrySalary:
  "\<forall>k<3. failed (salaryAttempt (exampleRuntime env up) url nid rid (length (sent w) + k)) \<Longrightarrow>
   withRetrySalary 3 d (callSalaryAPI (exampleRuntime env up) url nid rid) w =
     (salaryAttempt (exampleRuntime env up) url nid rid (length (sent w) + 2),
      after w (replicate 3 (salaryRequest url nid rid)) (replicate 3 d))"
  using retrySalary_all_failed [of "exampleRuntime env up" url 3 nid rid w d None]
  by (simp add: withRetrySalary_def)

lemma example_retryCredit:
  "\<forall>k<3. failed (creditAttempt (exampleRuntime env up) url nid rid (length (sent w) + k)) \<Longrightarrow>
   withRetryCredit 3 d (callCreditAPI (exampleRuntime env up) url nid rid) w =
     (creditAttempt (exampleRuntime env up) url nid rid (length (sent w) + 2),
      after w (replicate 3 (creditRequest url nid rid)) (replicate 3 d))"
  using retryCredit_all_failed [of "exampleRuntime env up" url 3 nid rid w d None]
  by (simp add: withRetryCredit_def)

subsection \<open>Retries\<close>

text \<open>
  C1, as the code has it. The claim that an attempt answered 404 ends the call does not hold:
  in the run below the first attempt yields the 404 error, the helper sleeps and calls again,
  and the call returns the salary of the second attempt.
\<close>

theorem not_found_is_retried:
  "notFound (salaryAttempt
      (exampleRuntime exampleEnv (scripted [(404, ''nf''), (200, ''{salary 12345678}'')]))
      ''http://salary:8081'' ''12345678'' ''r1'' 0)
   \<and> fst (callSalaryAPI
        (exampleRuntime exampleEnv (scripted [(404, ''nf''), (200, ''{salary 12345678}'')]))
        ''http://salary:8081'' ''12345678'' ''r1'' world0) = Failed (HttpError 404 ''nf'')
   \<and> withRetrySalary 3 (250 * Millisecond)
        (callSalaryAPI
          (exampleRuntime exampleEnv (scripted [(404, ''nf''), (200, ''{salary 12345678}'')]))
          ''http://salary:8081'' ''12345678'' ''r1'') world0
      = (Ok exampleSalary,
         \<lparr>sent = replicate 2 (salaryRequest ''http://salary:8081'' ''12345678'' ''r1''),
          slept = [250000000], logged = []\<rparr>)"
proof -
  let ?rt = "exampleRuntime exampleEnv (scripted [(404, ''nf''), (200, ''{salary 12345678}'')])"
  have a: "salaryAttempt ?rt ''http://salary:8081'' ''12345678'' ''r1'' 0 = Failed (HttpError 404 ''nf'')"
    by (simp add: example_salaryAttempt)
  have b: "salaryAttempt ?rt ''http://salary:8081'' ''12345678'' ''r1'' (Suc 0) = Ok exampleSalary"
    by (simp add: example_salaryAttempt)
  have c: "withRetrySalary 3 (250 * Millisecond)
        (callSalaryAPI ?rt ''http://salary:8081'' ''12345678'' ''r1'') world0
      = (Ok exampleSalary,
         after world0 (replicate 2 (salaryRequest ''http://salary:8081'' ''12345678'' ''r1''))
           [250 * Millisecond])"
    using retrySalary_first_ok [of ?rt "''http://salary:8081''" 1 3 "''12345678''" "''r1''" world0
        exampleSalary "250 * Millisecond" None]
    by (simp add: withRetrySalary_def a b failed_def numeral_2_eq_2)
  show ?thesis
    unfolding c
    by (simp add: a notFound_def isNotFound_def callSalaryAPI_attempt)
      (simp add: after_def world0_def Millisecond_def)
qed

text \<open>
  C1 (amended). The retry helpers make no difference between failures: after every failed
  attempt, a 404 included, they sleep and call again, up to 3 attempts. When the 3 attempts
  fail the call yields the outcome of the third attempt, after 3 requests and 3 pauses. When
  attempt \<open>j\<close> is the first to succeed, the call yields its value at once, after \<open>j + 1\<close>
  requests and \<open>j\<close> pauses. This holds for the salary call and for the credit call.
\<close>

theorem retry_every_failure:
  assumes "NewRequest_ok rt (salaryURL @ ''/verify-salary'')"
    and "NewRequest_ok rt (creditURL @ ''/check-credit'')"
  shows
    "((\<forall>k<3. failed (salaryAttempt rt salaryURL nationalID reqID (length (sent w) + k)))
       \<longrightarrow> withRetrySalary 3 d (callSalaryAPI rt salaryURL nationalID reqID) w =
            (salaryAttempt rt salaryURL nationalID reqID (length (sent w) + 2),
             after w (replicate 3 (salaryRequest salaryURL nationalID reqID)) (replicate 3 d)))
     \<and> (\<forall>j<3. (\<forall>k<j. failed (salaryAttempt rt salaryURL nationalID reqID (length (sent w) + k)))
            \<and> salaryAttempt rt salaryURL nationalID reqID (length (sent w) + j) = Ok s
       \<longrightarrow> withRetrySalary 3 d (callSalaryAPI rt salaryURL nationalID reqID) w =
            (Ok s, after w (replicate (Suc j) (salaryRequest salaryURL nationalID reqID))
                     (replicate j d)))
     \<and> ((\<forall>k<3. failed (creditAttempt rt creditURL nationalID reqID (length (sent w) + k)))
       \<longrightarrow> withRetryCredit 3 d (callCreditAPI rt creditURL nationalID reqID) w =
            (creditAttempt rt creditURL nationalID reqID (length (sent w) + 2),
             after w (replicate 3 (creditRequest creditURL nationalID reqID)) (replicate 3 d)))
     \<and> (\<forall>j<3. (\<forall>k<j. failed (creditAttempt rt creditURL nationalID reqID (length (sent w) + k)))
            \<and> creditAttempt rt creditURL nationalID reqID (length (sent w) + j) = Ok c
       \<longrightarrow> withRetryCredit 3 d (callCreditAPI rt creditURL nationalID reqID) w =
            (Ok c, after w (replicate (Suc j) (creditRequest creditURL nationalID reqID))
                     (replicate j d)))"
proof (intro conjI impI allI)
  assume "\<forall>k<3. failed (salaryAttempt rt salaryURL nationalID reqID (length (sent w) + k))"
  from retrySalary_all_failed [OF assms(1) this, of d None]
  show "withRetrySalary 3 d (callSalaryAPI rt salaryURL nationalID reqID) w =
            (salaryAttempt rt salaryURL nationalID reqID (length (sent w) + 2),
             after w (replicate 3 (salaryRequest salaryURL nationalID reqID)) (replicate 3 d))"
    by (simp add: withRetrySalary_def)
next
  fix j
  assume "j < 3"
    and "(\<forall>k<j. failed (salaryAttempt rt salaryURL nationalID reqID (length (sent w) + k)))
            \<and> salaryAttempt rt salaryURL nationalID reqID (length (sent w) + j) = Ok s"
  then show "withRetrySalary 3 d (callSalaryAPI rt salaryURL nationalID reqID) w =
            (Ok s, after w (replicate (Suc j) (salaryRequest salaryURL nationalID reqID))
                     (replicate j d))"
    using retrySalary_first_ok [OF assms(1), of j 3 nationalID reqID w s d None]
    by (simp add: withRetrySalary_def)
next
  assume "\<forall>k<3. failed (creditAttempt rt creditURL nationalID reqID (length (sent w) + k))"
  from retryCredit_all_failed [OF assms(2) this, of d None]
  show "withRetryCredit 3 d (callCreditAPI rt creditURL nationalID reqID) w =
            (creditAttempt rt creditURL nationalID reqID (length (sent w) + 2),
             after w (replicate 3 (creditRequest creditURL nationalID reqID)) (replicate 3 d))"
    by (simp add: withRetryCredit_def)
next
  fix j
  assume "j < 3"
    and "(\<forall>k<j. failed (creditAttempt rt creditURL nationalID reqID (length (sent w) + k)))
            \<and> creditAttempt rt creditURL nationalID reqID (length (sent w) + j) = Ok c"
  then show "withRetryCredit 3 d (callCreditAPI rt creditURL nationalID reqID) w =
            (Ok c, after w (replicate (Suc j) (creditRequest creditURL nationalID reqID))
                     (replicate j d))"
    using retryCredit_first_ok [OF assms(2), of j 3 nationalID reqID w c d None]
    by (simp add: withRetryCredit_def)
qed

theorem retry_every_failure_witness:
  "failed (salaryAttempt
        (exampleRuntime exampleEnv (scripted [(404, ''nf''), (503, ''busy''), (404, ''nf'')]))
        ''http://salary:8081'' ''12345678'' ''r1'' 0)
   \<and> failed (salaryAttempt
        (exampleRuntime exampleEnv (scripted [(404, ''nf''), (503, ''busy''), (404, ''nf'')]))
        ''http://salary:8081'' ''12345678'' ''r1'' 1)
   \<and> failed (salaryAttempt
        (exampleRuntime exampleEnv (scripted [(404, ''nf''), (503, ''busy''), (404, ''nf'')]))
        ''http://salary:8081'' ''12345678'' ''r1'' 2)
   \<and> withRetrySalary 3 (250 * Millisecond)
        (callSalaryAPI
          (exampleRuntime exampleEnv (scripted [(404, ''nf''), (503, ''busy''), (404, ''nf'')]))
          ''http://salary:8081'' ''12345678'' ''r1'') world0
      = (Failed (HttpError 404 ''nf''),
         after world0 (replicate 3 (salaryRequest ''http://salary:8081'' ''12345678'' ''r1''))
           (replicate 3 (250 * Millisecond)))
   \<and> failed (creditAttempt
        (exampleRuntime exampleEnv (scripted [(404, ''nf''), (200, ''{credit 12345678}'')]))
        ''http://credit:8082'' ''12345678'' ''r1'' 0)
   \<and> withRetryCredit 3 (250 * Millisecond)
        (callCreditAPI
          (exampleRuntime exampleEnv (scripted [(404, ''nf''), (200, ''{credit 12345678}'')]))
          ''http://credit:8082'' ''12345678'' ''r1'') world0
      = (Ok exampleCredit,
         after world0 (replicate 2 (creditRequest ''http://credit:8082'' ''12345678'' ''r1''))
           [250 * Millisecond])"
proof -
  let ?rs = "exampleRuntime exampleEnv (scripted [(404, ''nf''), (503, ''busy''), (404, ''nf'')])"
  let ?rc = "exampleRuntime exampleEnv (scripted [(404, ''nf''), (200, ''{credit 12345678}'')])"
  have s: "\<forall>k<3. failed (salaryAttempt ?rs ''http://salary:8081'' ''12345678'' ''r1''
              (length (sent world0) + k))"
    by (simp add: less_3_cases example_salaryAttempt failed_def)
  have c0: "\<forall>k<1. failed (creditAttempt ?rc ''http://credit:8082'' ''12345678'' ''r1''
              (length (sent world0) + k))"
    by (simp add: example_creditAttempt failed_def)
  have c1: "creditAttempt ?rc ''http://credit:8082'' ''12345678'' ''r1''
              (length (sent world0) + 1) = Ok exampleCredit"
    by (simp add: example_creditAttempt)
  have one: "(1::nat) < 3"
    by simp
  have ok: "NewRequest_ok ?rs (''http://salary:8081'' @ ''/verify-salary'')"
    "NewRequest_ok ?rs (''http://credit:8082'' @ ''/check-credit'')"
    "NewRequest_ok ?rc (''http://salary:8081'' @ ''/verify-salary'')"
    "NewRequest_ok ?rc (''http://credit:8082'' @ ''/check-credit'')"
    by (rule example_ok)+
  note A = retry_every_failure [where rt = ?rs and nationalID = "''12345678''" and reqID = "''r1''"
      and w = world0 and d = "250 * Millisecond" and s = exampleSalary and c = exampleCredit,
      OF ok(1,2), THEN conjunct1, THEN mp, OF s]
  note B = retry_every_failure [where rt = ?rc and nationalID = "''12345678''" and reqID = "''r1''"
      and w = world0 and d = "250 * Millisecond" and s = exampleSalary and c = exampleCredit,
      OF ok(3,4), THEN conjunct2, THEN conjunct2, THEN conjunct2,
      THEN spec [where x = "1::nat"], THEN mp, OF one, THEN mp, OF conjI [OF c0 c1]]
  show ?thesis
    unfolding A B
    by (simp add: example_salaryAttempt example_creditAttempt failed_def numeral_2_eq_2)
qed

subsection \<open>The handler\<close>

text \<open>
  C8. For a request that passes validation, when SALARY_API_URL or CREDIT_API_URL is unset the
  handler answers 500 with the JSON object of error ``config\_error'', a message and the
  request id, and the world is unchanged: no upstream request was sent. Validation comes first:
  a POST whose body does not decode, or decodes to missing or non-positive fields, is answered
  400 whatever the configuration is.
\<close>

theorem config_error:
  "(validated rt r req \<and> \<not> configured rt \<longrightarrow>
      loanHandler rt r w =
        (Some \<lparr>code = 500,
               header = [''X-Request-ID'' \<mapsto> getOrCreateReqID rt r,
                         ''Content-Type'' \<mapsto> ''application/json''],
               payload = JSONMap [''error'' \<mapsto> ''config_error'',
                                  ''message'' \<mapsto> ''Service URLs not configured'',
                                  ''request_id'' \<mapsto> getOrCreateReqID rt r]\<rparr>, w))
   \<and> (Method r = ''POST''
        \<and> (decodeLoanRequest rt (Body r) = None
            \<or> (\<exists>q. decodeLoanRequest rt (Body r) = Some q
                   \<and> (NationalID q = [] \<or> fle (LoanAmount q) (Fin 0) \<or> TermMonths q \<le> 0)))
      \<longrightarrow> (\<exists>resp. loanHandler rt r w = (Some resp, w) \<and> code resp = 400))"
  by (auto simp: loanHandler_def validated_def configured_def Let_def http_Error_def)

theorem config_error_witness:
  "validated (exampleRuntime noEnv (scripted [])) (exampleRequest ''{application 12345678}'')
     exampleApplication
   \<and> \<not> configured (exampleRuntime noEnv (scripted []))
   \<and> loanHandler (exampleRuntime noEnv (scripted [])) (exampleRequest ''{application 12345678}'') world0 =
        (Some \<lparr>code = 500,
               header = [''X-Request-ID'' \<mapsto> ''r1'', ''Content-Type'' \<mapsto> ''application/json''],
               payload = JSONMap [''error'' \<mapsto> ''config_error'',
                                  ''message'' \<mapsto> ''Service URLs not configured'',
                                  ''request_id'' \<mapsto> ''r1'']\<rparr>, world0)
   \<and> decodeLoanRequest (exampleRuntime noEnv (scripted [])) (Body (exampleRequest ''{'')) = None
   \<and> (\<exists>resp. loanHandler (exampleRuntime noEnv (scripted [])) (exampleRequest ''{'') world0
                = (Some resp, world0) \<and> code resp = 400)"
proof -
  have a: "\<not> configured (exampleRuntime noEnv (scripted []))"
    by (simp add: configured_def exampleRuntime_def noEnv_def)
  have b: "Method (exampleRequest ''{'') = ''POST''"
    "decodeLoanRequest (exampleRuntime noEnv (scripted [])) (Body (exampleRequest ''{'')) = None"
    by (simp_all add: exampleRuntime_def exampleRequest_def)
  show ?thesis
    using config_error [of "exampleRuntime noEnv (scripted [])"
        "exampleRequest ''{application 12345678}''" exampleApplication world0]
      config_error [of "exampleRuntime noEnv (scripted [])" "exampleRequest ''{''" exampleApplication world0]
      example_validated [of noEnv "scripted []"] a b
    by simp
qed

text \<open>
  C10. When ANNUAL_INTEREST_PERCENT is set to a text that does not parse, the rate is the
  default 20, and the handler does exactly what it does with the variable unset: same response,
  same effects.
\<close>

theorem rate_parse_failure:
  assumes "Getenv rt ''ANNUAL_INTEREST_PERCENT'' \<noteq> []"
    and "ParseFloat rt (Getenv rt ''ANNUAL_INTEREST_PERCENT'') = None"
  shows "annualRate rt = Fin 20
    \<and> loanHandler rt r w =
        loanHandler (rt\<lparr>Getenv := (Getenv rt)(''ANNUAL_INTEREST_PERCENT'' := [])\<rparr>) r w"
proof -
  let ?rt = "rt\<lparr>Getenv := (Getenv rt)(''ANNUAL_INTEREST_PERCENT'' := [])\<rparr>"
  have rate: "annualRate rt = Fin 20" "annualRate ?rt = Fin 20"
    using assms by (simp_all add: annualRate_def)
  have calls: "callSalaryAPI ?rt = callSalaryAPI rt" "callCreditAPI ?rt = callCreditAPI rt"
    by (intro ext; simp add: callSalaryAPI_def callCreditAPI_def Let_def
        split: sum.splits prod.splits)+
  have rid: "getOrCreateReqID ?rt = getOrCreateReqID rt"
    by (intro ext) (simp add: getOrCreateReqID_def Let_def)
  show ?thesis
    unfolding loanHandler_def calls rid rate
    by (simp add: Let_def cong: option.case_cong prod.case_cong call.case_cong if_cong)
qed

theorem rate_parse_failure_witness:
  "Getenv (exampleRuntime (exampleEnv(''ANNUAL_INTEREST_PERCENT'' := ''twenty'')) (scripted []))
      ''ANNUAL_INTEREST_PERCENT'' = ''twenty''
   \<and> ParseFloat (exampleRuntime (exampleEnv(''ANNUAL_INTEREST_PERCENT'' := ''twenty'')) (scripted []))
        ''twenty'' = None
   \<and> annualRate (exampleRuntime (exampleEnv(''ANNUAL_INTEREST_PERCENT'' := ''twenty'')) (scripted []))
        = Fin 20
   \<and> loanHandler (exampleRuntime (exampleEnv(''ANNUAL_INTEREST_PERCENT'' := ''twenty'')) (scripted []))
         (exampleRequest ''{application 12345678}'') world0
      = loanHandler (exampleRuntime exampleEnv (scripted []))
         (exampleRequest ''{application 12345678}'') world0"
proof -
  let ?rt = "exampleRuntime (exampleEnv(''ANNUAL_INTEREST_PERCENT'' := ''twenty'')) (scripted [])"
  have a: "Getenv ?rt ''ANNUAL_INTEREST_PERCENT'' = ''twenty''"
    and b: "ParseFloat ?rt ''twenty'' = None"
    by (simp_all add: exampleRuntime_def)
  have c: "?rt\<lparr>Getenv := (Getenv ?rt)(''ANNUAL_INTEREST_PERCENT'' := [])\<rparr>
            = exampleRuntime exampleEnv (scripted [])"
    by (simp add: exampleRuntime_def exampleEnv_def fun_eq_iff)
  have d: "Getenv ?rt ''ANNUAL_INTEREST_PERCENT'' \<noteq> []"
    and e: "ParseFloat ?rt (Getenv ?rt ''ANNUAL_INTEREST_PERCENT'') = None"
    by (simp_all add: a b)
  show ?thesis
    using rate_parse_failure [OF d e, of "exampleRequest ''{application 12345678}''" world0]
    unfolding c using a b by simp
qed

text \<open>
  C3. For a validated application with the service configured, when each of the 3 attempts of
  the salary call fails otherwise than by a 404, the handler answers 502 with the JSON object of
  error ``salary\_service\_unavailable'', a message, the text of the last error as detail and
  the request id. The world afterwards holds the 3 salary requests, the 3 pauses and the one log
  line of the salary call: no credit request was sent and no decision was logged.
\<close>

theorem salary_unavailable:
  fixes rt r req w
  defines "reqID \<equiv> getOrCreateReqID rt r"
    and "salaryURL \<equiv> Getenv rt ''SALARY_API_URL''"
  assumes "validated rt r req" and "configured rt"
    and "NewRequest_ok rt (salaryURL @ ''/verify-salary'')"
    and "\<forall>k<3. unavailable
            (salaryAttempt rt salaryURL (NationalID req) reqID (length (sent w) + k))"
  shows "\<exists>err. salaryAttempt rt salaryURL (NationalID req) reqID (length (sent w) + 2) = Failed err
    \<and> \<not> isNotFound err
    \<and> loanHandler rt r w =
        (Some \<lparr>code = 502,
               header = [''X-Request-ID'' \<mapsto> reqID, ''Content-Type'' \<mapsto> ''application/json''],
               payload = JSONMap [''error'' \<mapsto> ''salary_service_unavailable'',
                                  ''message'' \<mapsto> ''Failed to verify salary'',
                                  ''detail'' \<mapsto> Error err,
                                  ''request_id'' \<mapsto> reqID]\<rparr>,
         after (Printf (LogCallingSalary reqID salaryURL (NationalID req)) w)
           (replicate 3 (salaryRequest salaryURL (NationalID req) reqID))
           (replicate 3 (250 * Millisecond)))"
proof -
  let ?w = "Printf (LogCallingSalary reqID salaryURL (NationalID req)) w"
  have len: "length (sent ?w) = length (sent w)"
    by (simp add: Printf_def)
  have un: "\<forall>k<3. unavailable
              (salaryAttempt rt salaryURL (NationalID req) reqID (length (sent ?w) + k))"
    using assms(6) by (simp add: len)
  then have fl: "\<forall>k<3. failed
              (salaryAttempt rt salaryURL (NationalID req) reqID (length (sent ?w) + k))"
    by (auto simp: unavailable_def failed_def split: call.splits)
  from assms(6) have "unavailable (salaryAttempt rt salaryURL (NationalID req) reqID (length (sent w) + 2))"
  proof -
    have "(2::nat) < 3" by simp
    with assms(6) show ?thesis by blast
  qed
  then obtain err where
    err: "salaryAttempt rt salaryURL (NationalID req) reqID (length (sent w) + 2) = Failed err"
      "\<not> isNotFound err"
    by (auto simp: unavailable_def split: call.splits)
  have retry: "withRetrySalary 3 (250 * Millisecond)
        (callSalaryAPI rt salaryURL (NationalID req) reqID) ?w =
      (Failed err, after ?w (replicate 3 (salaryRequest salaryURL (NationalID req) reqID))
                     (replicate 3 (250 * Millisecond)))"
    using retrySalary_all_failed [OF assms(5) fl, of "250 * Millisecond" None] err(1)
    by (simp add: withRetrySalary_def len)
  have "loanHandler rt r w =
        (Some \<lparr>code = 502,
               header = [''X-Request-ID'' \<mapsto> reqID, ''Content-Type'' \<mapsto> ''application/json''],
               payload = JSONMap [''error'' \<mapsto> ''salary_service_unavailable'',
                                  ''message'' \<mapsto> ''Failed to verify salary'',
                                  ''detail'' \<mapsto> Error err,
                                  ''request_id'' \<mapsto> reqID]\<rparr>,
         after ?w (replicate 3 (salaryRequest salaryURL (NationalID req) reqID))
           (replicate 3 (250 * Millisecond)))"
    using assms(3,4) retry err(2)
    unfolding loanHandler_def validated_def configured_def reqID_def salaryURL_def
    by (simp add: Let_def)
  with err show ?thesis by blast
qed

theorem salary_unavailable_witness:
  "validated (exampleRuntime exampleEnv (scripted [(500, ''boom''), (503, ''busy'')]))
     (exampleRequest ''{application 12345678}'') exampleApplication
   \<and> configured (exampleRuntime exampleEnv (scripted [(500, ''boom''), (503, ''busy'')]))
   \<and> unavailable (salaryAttempt (exampleRuntime exampleEnv (scripted [(500, ''boom''), (503, ''busy'')]))
        ''http://salary:8081'' ''12345678'' ''r1'' 0)
   \<and> unavailable (salaryAttempt (exampleRuntime exampleEnv (scripted [(500, ''boom''), (503, ''busy'')]))
        ''http://salary:8081'' ''12345678'' ''r1'' 1)
   \<and> unavailable (salaryAttempt (exampleRuntime exampleEnv (scripted [(500, ''boom''), (503, ''busy'')]))
        ''http://salary:8081'' ''12345678'' ''r1'' 2)
   \<and> loanHandler (exampleRuntime exampleEnv (scripted [(500, ''boom''), (503, ''busy'')]))
        (exampleRequest ''{application 12345678}'') world0 =
        (Some \<lparr>code = 502,
               header = [''X-Request-ID'' \<mapsto> ''r1'', ''Content-Type'' \<mapsto> ''application/json''],
               payload = JSONMap [''error'' \<mapsto> ''salary_service_unavailable'',
                                  ''message'' \<mapsto> ''Failed to verify salary'',
                                  ''detail'' \<mapsto> ''connection refused'',
                                  ''request_id'' \<mapsto> ''r1'']\<rparr>,
         \<lparr>sent = replicate 3 (salaryRequest ''http://salary:8081'' ''12345678'' ''r1''),
          slept = replicate 3 250000000,
          logged = [LogCallingSalary ''r1'' ''http://salary:8081'' ''12345678'']\<rparr>)"
proof -
  let ?rt = "exampleRuntime exampleEnv (scripted [(500, ''boom''), (503, ''busy'')])"
  have un: "unavailable (salaryAttempt ?rt ''http://salary:8081'' ''12345678'' ''r1'' 0)"
    "unavailable (salaryAttempt ?rt ''http://salary:8081'' ''12345678'' ''r1'' 1)"
    "unavailable (salaryAttempt ?rt ''http://salary:8081'' ''12345678'' ''r1'' 2)"
    by (simp_all add: example_salaryAttempt unavailable_def isNotFound_def)
  have id: "NationalID exampleApplication = ''12345678''"
    by (simp add: exampleApplication_def)
  have h: "\<forall>k<3. unavailable (salaryAttempt ?rt (Getenv ?rt ''SALARY_API_URL'')
             (NationalID exampleApplication)
             (getOrCreateReqID ?rt (exampleRequest ''{application 12345678}''))
             (length (sent world0) + k))"
    using un by (simp add: less_3_cases id)
  have w: "after (Printf (LogCallingSalary ''r1'' ''http://salary:8081'' ''12345678'') world0)
             (replicate 3 (salaryRequest ''http://salary:8081'' ''12345678'' ''r1''))
             (replicate 3 (250 * Millisecond))
           = \<lparr>sent = replicate 3 (salaryRequest ''http://salary:8081'' ''12345678'' ''r1''),
              slept = replicate 3 250000000,
              logged = [LogCallingSalary ''r1'' ''http://salary:8081'' ''12345678'']\<rparr>"
    by (simp add: after_def Printf_def world0_def Millisecond_def)
  show ?thesis
    using salary_unavailable [OF example_validated example_configured _ h] un
      example_validated [of exampleEnv "scripted [(500, ''boom''), (503, ''busy'')]"]
      example_configured [of "scripted [(500, ''boom''), (503, ''busy'')]"]
    by (simp add: id w example_salaryAttempt)
qed

text \<open>
  What the handler does when a lookup ends with the 404 error: it builds the DECLINED value and
  gives it to the encoder.
\<close>

lemma salary_not_found_response:
  fixes rt r req w
  defines "reqID \<equiv> getOrCreateReqID rt r"
    and "salaryURL \<equiv> Getenv rt ''SALARY_API_URL''"
  assumes "validated rt r req" and "configured rt"
    and "notFound (fst (withRetrySalary 3 (250 * Millisecond)
            (callSalaryAPI rt salaryURL (NationalID req) reqID)
            (Printf (LogCallingSalary reqID salaryURL (NationalID req)) w)))"
  shows "loanHandler rt r w =
        (Some \<lparr>code = 200,
               header = [''X-Request-ID'' \<mapsto> reqID, ''Content-Type'' \<mapsto> ''application/json''],
               payload = Encode
                 \<lparr>Status = ''DECLINED'', Reason = ''Salary record not found'',
                  Reasons = [''Salary record not found''],
                  MonthlyPayment = amortizedMonthlyPayment (math_Pow rt) (LoanAmount req)
                                     (TermMonths req) (annualRate rt),
                  AnnualInterest = annualRate rt,
                  SalaryEcho = None, CreditEcho = None, ApplicationEcho = Some req\<rparr>\<rparr>,
         snd (withRetrySalary 3 (250 * Millisecond)
            (callSalaryAPI rt salaryURL (NationalID req) reqID)
            (Printf (LogCallingSalary reqID salaryURL (NationalID req)) w)))"
proof -
  obtain out w' where out: "withRetrySalary 3 (250 * Millisecond)
            (callSalaryAPI rt salaryURL (NationalID req) reqID)
            (Printf (LogCallingSalary reqID salaryURL (NationalID req)) w) = (out, w')"
    by (cases "withRetrySalary 3 (250 * Millisecond)
            (callSalaryAPI rt salaryURL (NationalID req) reqID)
            (Printf (LogCallingSalary reqID salaryURL (NationalID req)) w)") auto
  with assms(5) obtain err where err: "out = Failed err" "isNotFound err"
    by (auto simp: notFound_def split: call.splits)
  show ?thesis
    using assms(3,4) out err
    unfolding loanHandler_def validated_def configured_def reqID_def salaryURL_def
    by (simp add: Let_def)
qed

lemma credit_not_found_response:
  fixes rt r req w
  defines "reqID \<equiv> getOrCreateReqID rt r"
    and "salaryURL \<equiv> Getenv rt ''SALARY_API_URL''"
    and "creditURL \<equiv> Getenv rt ''CREDIT_API_URL''"
  assumes "validated rt r req" and "configured rt"
    and "withRetrySalary 3 (250 * Millisecond)
            (callSalaryAPI rt salaryURL (NationalID req) reqID)
            (Printf (LogCallingSalary reqID salaryURL (NationalID req)) w) = (Ok salary, w1)"
    and "notFound (fst (withRetryCredit 3 (250 * Millisecond)
            (callCreditAPI rt creditURL (NationalID req) reqID)
            (Printf (LogCallingCredit reqID creditURL (NationalID req)) w1)))"
  shows "loanHandler rt r w =
        (Some \<lparr>code = 200,
               header = [''X-Request-ID'' \<mapsto> reqID, ''Content-Type'' \<mapsto> ''application/json''],
               payload = Encode
                 \<lparr>Status = ''DECLINED'', Reason = ''Credit record not found'',
                  Reasons = [''Credit record not found''],
                  MonthlyPayment = amortizedMonthlyPayment (math_Pow rt) (LoanAmount req)
                                     (TermMonths req) (annualRate rt),
                  AnnualInterest = annualRate rt,
                  SalaryEcho = Some salary, CreditEcho = None, ApplicationEcho = Some req\<rparr>\<rparr>,
         snd (withRetryCredit 3 (250 * Millisecond)
            (callCreditAPI rt creditURL (NationalID req) reqID)
            (Printf (LogCallingCredit reqID creditURL (NationalID req)) w1)))"
proof -
  obtain out w' where out: "withRetryCredit 3 (250 * Millisecond)
            (callCreditAPI rt creditURL (NationalID req) reqID)
            (Printf (LogCallingCredit reqID creditURL (NationalID req)) w1) = (out, w')"
    by (cases "withRetryCredit 3 (250 * Millisecond)
            (callCreditAPI rt creditURL (NationalID req) reqID)
            (Printf (LogCallingCredit reqID creditURL (NationalID req)) w1)") auto
  with assms(7) obtain err where err: "out = Failed err" "isNotFound err"
    by (auto simp: notFound_def split: call.splits)
  show ?thesis
    using assms(4,5,6) out err
    unfolding loanHandler_def validated_def configured_def reqID_def salaryURL_def creditURL_def
    by (simp add: Let_def)
qed

lemma example_nan_configured: "configured (exampleRuntime nanRateEnv up)"
  by (simp add: configured_def exampleRuntime_def nanRateEnv_def exampleEnv_def)

lemma example_nan_urls [simp]:
  "Getenv (exampleRuntime nanRateEnv up) ''SALARY_API_URL'' = ''http://salary:8081''"
  "Getenv (exampleRuntime nanRateEnv up) ''CREDIT_API_URL'' = ''http://credit:8082''"
  by (simp_all add: exampleRuntime_def nanRateEnv_def exampleEnv_def)

lemma example_nan_rate: "annualRate (exampleRuntime nanRateEnv up) = NaN"
  by (simp add: annualRate_def exampleRuntime_def nanRateEnv_def)

lemma example_rate_20: "annualRate (exampleRuntime exampleEnv up) = Fin 20"
  by (simp add: annualRate_def exampleRuntime_def exampleEnv_def)

lemma example_payment_finite:
  "isFinite (amortizedMonthlyPayment powNearest (Fin 50000) 12 (Fin 20))"
proof -
  have "(463173 / 100 :: rat) \<le> 463173 / 100" "(463173 / 100 :: rat) \<le> 463173 / 100"
    by simp_all
  from fl_between [OF this] obtain y where "fl (463173 / 100) = Fin y"
    by auto
  then show ?thesis
    by (simp add: payment_example [of powNearest, OF powNearest_example])
qed

lemma example_application [simp]:
  "LoanAmount exampleApplication = Fin 50000" "TermMonths exampleApplication = 12"
  "math_Pow (exampleRuntime env up) = powNearest"
  by (simp_all add: exampleRuntime_def exampleApplication_def)

text \<open>
  The encoder writes a value only when its numbers are finite. An operand that is an infinity
  or NaN makes a product, a quotient and a rounding non-finite, so a finite payment of a
  validated application needs a finite amount and a finite annual rate.
\<close>

lemma fmul_not_finite: "\<not> isFinite x \<Longrightarrow> \<not> isFinite (fmul x y)"
  by (cases x; cases y) (auto simp: isFinite_def)

lemma fmul_not_finite': "\<not> isFinite y \<Longrightarrow> \<not> isFinite (fmul x y)"
  by (cases x; cases y) (auto simp: isFinite_def)

lemma fdiv_not_finite: "\<not> isFinite x \<Longrightarrow> \<not> isFinite (fdiv x y)"
  by (cases x; cases y) (auto simp: isFinite_def)

lemma math_Round_not_finite: "\<not> isFinite x \<Longrightarrow> \<not> isFinite (math_Round x)"
  by (cases x) (auto simp: isFinite_def)

lemma round2_not_finite: "\<not> isFinite x \<Longrightarrow> \<not> isFinite (round2 x)"
  unfolding round2_def
  by (rule fdiv_not_finite, rule math_Round_not_finite, rule fmul_not_finite)

lemma feq_not_finite: "\<not> isFinite x \<Longrightarrow> \<not> feq x (Fin 0)"
  by (cases x) (auto simp: isFinite_def)

lemma payment_finite:
  assumes "isFinite (amortizedMonthlyPayment pow p n a)" and "0 < n" and "\<not> fle p (Fin 0)"
  shows "isFinite p \<and> isFinite a"
proof -
  let ?r = "fdiv (fdiv a (Fin 100)) (Fin 12)"
  let ?power = "pow (fadd (Fin 1) ?r) (float64_of_int n)"
  have amount: "isFinite p"
  proof (rule ccontr)
    assume p: "\<not> isFinite p"
    have "\<not> isFinite (round2 (fdiv p (float64_of_int n)))"
      by (rule round2_not_finite [OF fdiv_not_finite [OF p]])
    moreover have "\<not> isFinite (round2 (fdiv (fmul p (fmul ?r ?power)) (fsub ?power (Fin 1))))"
      by (rule round2_not_finite [OF fdiv_not_finite [OF fmul_not_finite [OF p]]])
    ultimately show False
      using assms by (simp add: amortizedMonthlyPayment_def round2_def Let_def split: if_splits)
  qed
  have rate: "isFinite a"
  proof (rule ccontr)
    assume "\<not> isFinite a"
    then have r: "\<not> isFinite ?r"
      by (intro fdiv_not_finite)
    then have "\<not> isFinite (fmul ?r ?power)"
      by (rule fmul_not_finite)
    then have "\<not> isFinite (fmul p (fmul ?r ?power))"
      by (rule fmul_not_finite')
    then have "\<not> isFinite (round2 (fdiv (fmul p (fmul ?r ?power)) (fsub ?power (Fin 1))))"
      by (rule round2_not_finite [OF fdiv_not_finite])
    with feq_not_finite [OF r] show False
      using assms by (simp add: amortizedMonthlyPayment_def round2_def Let_def split: if_splits)
  qed
  from amount rate show ?thesis ..
qed

text \<open>
  C4, as the code has it. The claim fails for a validated application whose payment or rate
  is not a finite number: in the run below the rate is the NaN that \<open>strconv.ParseFloat\<close>
  reads from the text NaN, the salary lookup ends with the 404 error, the encoder refuses the
  value and the response is the status 200 with an empty body, not a DECLINED response.
\<close>

theorem salary_not_found_empty_body:
  "validated (exampleRuntime nanRateEnv (scripted [(404, ''nf''), (404, ''nf''), (404, ''nf'')]))
     (exampleRequest ''{application 12345678}'') exampleApplication
   \<and> configured (exampleRuntime nanRateEnv (scripted [(404, ''nf''), (404, ''nf''), (404, ''nf'')]))
   \<and> notFound (fst (withRetrySalary 3 (250 * Millisecond)
        (callSalaryAPI (exampleRuntime nanRateEnv (scripted [(404, ''nf''), (404, ''nf''), (404, ''nf'')]))
           ''http://salary:8081'' ''12345678'' ''r1'')
        (Printf (LogCallingSalary ''r1'' ''http://salary:8081'' ''12345678'') world0)))
   \<and> fst (loanHandler (exampleRuntime nanRateEnv (scripted [(404, ''nf''), (404, ''nf''), (404, ''nf'')]))
          (exampleRequest ''{application 12345678}'') world0) =
        Some \<lparr>code = 200,
              header = [''X-Request-ID'' \<mapsto> ''r1'', ''Content-Type'' \<mapsto> ''application/json''],
              payload = NoBody\<rparr>"
proof -
  let ?up = "scripted [(404, ''nf''), (404, ''nf''), (404, ''nf'')]"
  let ?rt = "exampleRuntime nanRateEnv ?up"
  let ?w = "Printf (LogCallingSalary ''r1'' ''http://salary:8081'' ''12345678'') world0"
  have f: "\<forall>k<3. failed (salaryAttempt ?rt ''http://salary:8081'' ''12345678'' ''r1''
               (length (sent ?w) + k))"
    by (simp add: less_3_cases example_salaryAttempt failed_def)
  have nf: "notFound (fst (withRetrySalary 3 (250 * Millisecond)
        (callSalaryAPI ?rt ''http://salary:8081'' ''12345678'' ''r1'') ?w))"
    by (simp add: example_retrySalary [OF f] example_salaryAttempt notFound_def isNotFound_def)
  have "notFound (fst (withRetrySalary 3 (250 * Millisecond)
        (callSalaryAPI ?rt (Getenv ?rt ''SALARY_API_URL'') (NationalID exampleApplication)
           (getOrCreateReqID ?rt (exampleRequest ''{application 12345678}'')))
        (Printf (LogCallingSalary (getOrCreateReqID ?rt (exampleRequest ''{application 12345678}''))
           (Getenv ?rt ''SALARY_API_URL'') (NationalID exampleApplication)) world0)))"
    using nf by simp
  from salary_not_found_response [OF example_validated example_nan_configured this]
  have "fst (loanHandler ?rt (exampleRequest ''{application 12345678}'') world0) =
        Some \<lparr>code = 200,
              header = [''X-Request-ID'' \<mapsto> ''r1'', ''Content-Type'' \<mapsto> ''application/json''],
              payload = NoBody\<rparr>"
    by (simp add: example_nan_rate Encode_def encodable_def isFinite_def)
  with nf example_validated [of nanRateEnv ?up] example_nan_configured [of ?up]
  show ?thesis
    by simp
qed

text \<open>
  C4 (amended). For a validated application with the service configured, when the salary lookup
  (the retried call) ends with the 404 error and the computed monthly payment is a finite
  number (the requested amount and the annual rate are then finite too), the response is
  DECLINED with the reason list [``Salary record not found''], that reason as primary reason,
  no salary and no credit fact, the payment computed from the requested amount and term at the
  annual rate, and the application echoed.
\<close>

theorem salary_not_found:
  fixes rt r req w
  defines "reqID \<equiv> getOrCreateReqID rt r"
    and "salaryURL \<equiv> Getenv rt ''SALARY_API_URL''"
  assumes "validated rt r req" and "configured rt"
    and "notFound (fst (withRetrySalary 3 (250 * Millisecond)
            (callSalaryAPI rt salaryURL (NationalID req) reqID)
            (Printf (LogCallingSalary reqID salaryURL (NationalID req)) w)))"
    and "isFinite (amortizedMonthlyPayment (math_Pow rt) (LoanAmount req) (TermMonths req)
           (annualRate rt))"
  shows "loanHandler rt r w =
        (Some \<lparr>code = 200,
               header = [''X-Request-ID'' \<mapsto> reqID, ''Content-Type'' \<mapsto> ''application/json''],
               payload = JSONLoan
                 \<lparr>Status = ''DECLINED'', Reason = ''Salary record not found'',
                  Reasons = [''Salary record not found''],
                  MonthlyPayment = amortizedMonthlyPayment (math_Pow rt) (LoanAmount req)
                                     (TermMonths req) (annualRate rt),
                  AnnualInterest = annualRate rt,
                  SalaryEcho = None, CreditEcho = None, ApplicationEcho = Some req\<rparr>\<rparr>,
         snd (withRetrySalary 3 (250 * Millisecond)
            (callSalaryAPI rt salaryURL (NationalID req) reqID)
            (Printf (LogCallingSalary reqID salaryURL (NationalID req)) w)))"
proof -
  from assms(3) have "0 < TermMonths req" "\<not> fle (LoanAmount req) (Fin 0)"
    by (simp_all add: validated_def)
  from payment_finite [OF assms(6) this]
  have "isFinite (LoanAmount req)" "isFinite (annualRate rt)"
    by simp_all
  with salary_not_found_response [OF assms(3,4) assms(5) [unfolded reqID_def salaryURL_def]]
    assms(6)
  show ?thesis
    by (simp add: Encode_def encodable_def reqID_def salaryURL_def)
qed

theorem salary_not_found_witness:
  "validated (exampleRuntime exampleEnv (scripted [(404, ''nf''), (404, ''nf''), (404, ''nf'')]))
     (exampleRequest ''{application 12345678}'') exampleApplication
   \<and> configured (exampleRuntime exampleEnv (scripted [(404, ''nf''), (404, ''nf''), (404, ''nf'')]))
   \<and> notFound (fst (withRetrySalary 3 (250 * Millisecond)
        (callSalaryAPI (exampleRuntime exampleEnv (scripted [(404, ''nf''), (404, ''nf''), (404, ''nf'')]))
           ''http://salary:8081'' ''12345678'' ''r1'')
        (Printf (LogCallingSalary ''r1'' ''http://salary:8081'' ''12345678'') world0)))
   \<and> isFinite (amortizedMonthlyPayment powNearest (Fin 50000) 12 (Fin 20))
   \<and> (\<exists>w'. loanHandler (exampleRuntime exampleEnv (scripted [(404, ''nf''), (404, ''nf''), (404, ''nf'')]))
          (exampleRequest ''{application 12345678}'') world0 =
        (Some \<lparr>code = 200,
               header = [''X-Request-ID'' \<mapsto> ''r1'', ''Content-Type'' \<mapsto> ''application/json''],
               payload = JSONLoan
                 \<lparr>Status = ''DECLINED'', Reason = ''Salary record not found'',
                  Reasons = [''Salary record not found''],
                  MonthlyPayment = amortizedMonthlyPayment powNearest (Fin 50000) 12 (Fin 20),
                  AnnualInterest = Fin 20,
                  SalaryEcho = None, CreditEcho = None,
                  ApplicationEcho = Some exampleApplication\<rparr>\<rparr>, w'))"
proof -
  let ?up = "scripted [(404, ''nf''), (404, ''nf''), (404, ''nf'')]"
  let ?rt = "exampleRuntime exampleEnv ?up"
  let ?w = "Printf (LogCallingSalary ''r1'' ''http://salary:8081'' ''12345678'') world0"
  have f: "\<forall>k<3. failed (salaryAttempt ?rt ''http://salary:8081'' ''12345678'' ''r1''
               (length (sent ?w) + k))"
    by (simp add: less_3_cases example_salaryAttempt failed_def)
  have nf: "notFound (fst (withRetrySalary 3 (250 * Millisecond)
        (callSalaryAPI ?rt ''http://salary:8081'' ''12345678'' ''r1'') ?w))"
    by (simp add: example_retrySalary [OF f] example_salaryAttempt notFound_def isNotFound_def)
  show ?thesis
    using salary_not_found [of ?rt "exampleRequest ''{application 12345678}''" exampleApplication world0]
      example_validated [of exampleEnv ?up] example_configured [of ?up] nf example_payment_finite
    by (simp add: example_rate_20)
qed

text \<open>
  C5, as the code has it. The claim fails in the same way: with the rate the NaN read from the
  text NaN, the salary resolved and the credit lookup ending with the 404 error, the encoder
  refuses the value and the response is the status 200 with an empty body.
\<close>

theorem credit_not_found_empty_body:
  "validated (exampleRuntime nanRateEnv
       (scripted [(200, ''{salary 12345678}''), (404, ''nf''), (404, ''nf''), (404, ''nf'')]))
     (exampleRequest ''{application 12345678}'') exampleApplication
   \<and> configured (exampleRuntime nanRateEnv
       (scripted [(200, ''{salary 12345678}''), (404, ''nf''), (404, ''nf''), (404, ''nf'')]))
   \<and> fst (withRetrySalary 3 (250 * Millisecond)
        (callSalaryAPI (exampleRuntime nanRateEnv
           (scripted [(200, ''{salary 12345678}''), (404, ''nf''), (404, ''nf''), (404, ''nf'')]))
           ''http://salary:8081'' ''12345678'' ''r1'')
        (Printf (LogCallingSalary ''r1'' ''http://salary:8081'' ''12345678'') world0))
      = Ok exampleSalary
   \<and> notFound (fst (withRetryCredit 3 (250 * Millisecond)
        (callCreditAPI (exampleRuntime nanRateEnv
           (scripted [(200, ''{salary 12345678}''), (404, ''nf''), (404, ''nf''), (404, ''nf'')]))
           ''http://credit:8082'' ''12345678'' ''r1'')
        (Printf (LogCallingCredit ''r1'' ''http://credit:8082'' ''12345678'')
           (after (Printf (LogCallingSalary ''r1'' ''http://salary:8081'' ''12345678'') world0)
              [salaryRequest ''http://salary:8081'' ''12345678'' ''r1''] []))))
   \<and> fst (loanHandler (exampleRuntime nanRateEnv
            (scripted [(200, ''{salary 12345678}''), (404, ''nf''), (404, ''nf''), (404, ''nf'')]))
          (exampleRequest ''{application 12345678}'') world0) =
        Some \<lparr>code = 200,
              header = [''X-Request-ID'' \<mapsto> ''r1'', ''Content-Type'' \<mapsto> ''application/json''],
              payload = NoBody\<rparr>"
proof -
  let ?up = "scripted [(200, ''{salary 12345678}''), (404, ''nf''), (404, ''nf''), (404, ''nf'')]"
  let ?rt = "exampleRuntime nanRateEnv ?up"
  let ?w = "Printf (LogCallingSalary ''r1'' ''http://salary:8081'' ''12345678'') world0"
  let ?w1 = "after ?w [salaryRequest ''http://salary:8081'' ''12345678'' ''r1''] []"
  let ?w2 = "Printf (LogCallingCredit ''r1'' ''http://credit:8082'' ''12345678'') ?w1"
  have s: "withRetrySalary 3 (250 * Millisecond)
        (callSalaryAPI ?rt ''http://salary:8081'' ''12345678'' ''r1'') ?w = (Ok exampleSalary, ?w1)"
    using retrySalary_first_ok [of ?rt "''http://salary:8081''" 0 3 "''12345678''" "''r1''" ?w
        exampleSalary "250 * Millisecond" None]
    by (simp add: withRetrySalary_def example_salaryAttempt)
  have f: "\<forall>k<3. failed (creditAttempt ?rt ''http://credit:8082'' ''12345678'' ''r1''
               (length (sent ?w2) + k))"
    by (simp add: less_3_cases example_creditAttempt failed_def)
  have nf: "notFound (fst (withRetryCredit 3 (250 * Millisecond)
        (callCreditAPI ?rt ''http://credit:8082'' ''12345678'' ''r1'') ?w2))"
    by (simp add: example_retryCredit [OF f] example_creditAttempt notFound_def isNotFound_def)
  have s': "withRetrySalary 3 (250 * Millisecond)
        (callSalaryAPI ?rt (Getenv ?rt ''SALARY_API_URL'') (NationalID exampleApplication)
           (getOrCreateReqID ?rt (exampleRequest ''{application 12345678}'')))
        (Printf (LogCallingSalary (getOrCreateReqID ?rt (exampleRequest ''{application 12345678}''))
           (Getenv ?rt ''SALARY_API_URL'') (NationalID exampleApplication)) world0)
        = (Ok exampleSalary, ?w1)"
    using s by simp
  have nf': "notFound (fst (withRetryCredit 3 (250 * Millisecond)
        (callCreditAPI ?rt (Getenv ?rt ''CREDIT_API_URL'') (NationalID exampleApplication)
           (getOrCreateReqID ?rt (exampleRequest ''{application 12345678}'')))
        (Printf (LogCallingCredit (getOrCreateReqID ?rt (exampleRequest ''{application 12345678}''))
           (Getenv ?rt ''CREDIT_API_URL'') (NationalID exampleApplication)) ?w1)))"
    using nf by simp
  from credit_not_found_response [OF example_validated example_nan_configured s' nf']
  have "fst (loanHandler ?rt (exampleRequest ''{application 12345678}'') world0) =
        Some \<lparr>code = 200,
              header = [''X-Request-ID'' \<mapsto> ''r1'', ''Content-Type'' \<mapsto> ''application/json''],
              payload = NoBody\<rparr>"
    by (simp add: example_nan_rate Encode_def encodable_def isFinite_def)
  with s nf example_validated [of nanRateEnv ?up] example_nan_configured [of ?up]
  show ?thesis
    by simp
qed

text \<open>
  C5 (amended). For a validated application with the service configured, when the salary lookup
  yields a salary fact, the credit lookup ends with the 404 error and the salary and the
  computed monthly payment are finite numbers (the requested amount and the annual rate are
  then finite too), the response is DECLINED with the reason ``Credit record not found'', the
  salary fact included and no credit fact.
\<close>

theorem credit_not_found:
  fixes rt r req w
  defines "reqID \<equiv> getOrCreateReqID rt r"
    and "salaryURL \<equiv> Getenv rt ''SALARY_API_URL''"
    and "creditURL \<equiv> Getenv rt ''CREDIT_API_URL''"
  assumes "validated rt r req" and "configured rt"
    and "withRetrySalary 3 (250 * Millisecond)
            (callSalaryAPI rt salaryURL (NationalID req) reqID)
            (Printf (LogCallingSalary reqID salaryURL (NationalID req)) w) = (Ok salary, w1)"
    and "notFound (fst (withRetryCredit 3 (250 * Millisecond)
            (callCreditAPI rt creditURL (NationalID req) reqID)
            (Printf (LogCallingCredit reqID creditURL (NationalID req)) w1)))"
    and "isFinite (MonthlySalary salary)"
    and "isFinite (amortizedMonthlyPayment (math_Pow rt) (LoanAmount req) (TermMonths req)
           (annualRate rt))"
  shows "loanHandler rt r w =
        (Some \<lparr>code = 200,
               header = [''X-Request-ID'' \<mapsto> reqID, ''Content-Type'' \<mapsto> ''application/json''],
               payload = JSONLoan
                 \<lparr>Status = ''DECLINED'', Reason = ''Credit record not found'',
                  Reasons = [''Credit record not found''],
                  MonthlyPayment = amortizedMonthlyPayment (math_Pow rt) (LoanAmount req)
                                     (TermMonths req) (annualRate rt),
                  AnnualInterest = annualRate rt,
                  SalaryEcho = Some salary, CreditEcho = None, ApplicationEcho = Some req\<rparr>\<rparr>,
         snd (withRetryCredit 3 (250 * Millisecond)
            (callCreditAPI rt creditURL (NationalID req) reqID)
            (Printf (LogCallingCredit reqID creditURL (NationalID req)) w1)))"
proof -
  from assms(4) have "0 < TermMonths req" "\<not> fle (LoanAmount req) (Fin 0)"
    by (simp_all add: validated_def)
  from payment_finite [OF assms(9) this]
  have "isFinite (LoanAmount req)" "isFinite (annualRate rt)"
    by simp_all
  with credit_not_found_response [OF assms(4,5)
      assms(6) [unfolded reqID_def salaryURL_def]
      assms(7) [unfolded reqID_def creditURL_def]]
    assms(8,9)
  show ?thesis
    by (simp add: Encode_def encodable_def reqID_def salaryURL_def creditURL_def)
qed

theorem credit_not_found_witness:
  "validated (exampleRuntime exampleEnv
       (scripted [(200, ''{salary 12345678}''), (404, ''nf''), (404, ''nf''), (404, ''nf'')]))
     (exampleRequest ''{application 12345678}'') exampleApplication
   \<and> configured (exampleRuntime exampleEnv
       (scripted [(200, ''{salary 12345678}''), (404, ''nf''), (404, ''nf''), (404, ''nf'')]))
   \<and> isFinite (MonthlySalary exampleSalary)
   \<and> isFinite (amortizedMonthlyPayment powNearest (Fin 50000) 12 (Fin 20))
   \<and> (\<exists>w'. loanHandler (exampleRuntime exampleEnv
            (scripted [(200, ''{salary 12345678}''), (404, ''nf''), (404, ''nf''), (404, ''nf'')]))
          (exampleRequest ''{application 12345678}'') world0 =
        (Some \<lparr>code = 200,
               header = [''X-Request-ID'' \<mapsto> ''r1'', ''Content-Type'' \<mapsto> ''application/json''],
               payload = JSONLoan
                 \<lparr>Status = ''DECLINED'', Reason = ''Credit record not found'',
                  Reasons = [''Credit record not found''],
                  MonthlyPayment = amortizedMonthlyPayment powNearest (Fin 50000) 12 (Fin 20),
                  AnnualInterest = Fin 20,
                  SalaryEcho = Some exampleSalary, CreditEcho = None,
                  ApplicationEcho = Some exampleApplication\<rparr>\<rparr>, w'))"
proof -
  let ?up = "scripted [(200, ''{salary 12345678}''), (404, ''nf''), (404, ''nf''), (404, ''nf'')]"
  let ?rt = "exampleRuntime exampleEnv ?up"
  let ?w = "Printf (LogCallingSalary ''r1'' ''http://salary:8081'' ''12345678'') world0"
  let ?w1 = "after ?w [salaryRequest ''http://salary:8081'' ''12345678'' ''r1''] []"
  let ?w2 = "Printf (LogCallingCredit ''r1'' ''http://credit:8082'' ''12345678'') ?w1"
  have s: "withRetrySalary 3 (250 * Millisecond)
        (callSalaryAPI ?rt ''http://salary:8081'' ''12345678'' ''r1'') ?w = (Ok exampleSalary, ?w1)"
    using retrySalary_first_ok [of ?rt "''http://salary:8081''" 0 3 "''12345678''" "''r1''" ?w
        exampleSalary "250 * Millisecond" None]
    by (simp add: withRetrySalary_def example_salaryAttempt)
  have f: "\<forall>k<3. failed (creditAttempt ?rt ''http://credit:8082'' ''12345678'' ''r1''
               (length (sent ?w2) + k))"
    by (simp add: less_3_cases example_creditAttempt failed_def)
  have nf: "notFound (fst (withRetryCredit 3 (250 * Millisecond)
        (callCreditAPI ?rt ''http://credit:8082'' ''12345678'' ''r1'') ?w2))"
    by (simp add: example_retryCredit [OF f] example_creditAttempt notFound_def isNotFound_def)
  have sal: "isFinite (MonthlySalary exampleSalary)"
    by (simp add: exampleSalary_def)
  show ?thesis
    using credit_not_found [of ?rt "exampleRequest ''{application 12345678}''" exampleApplication
        world0 exampleSalary ?w1]
      example_validated [of exampleEnv ?up] example_configured [of ?up] s nf sal
      example_payment_finite
    by (simp add: example_rate_20)
qed

end
